theory Spec2Isabelle
  imports Complex_Main "HOL-Library.Sublist" "HOL-Library.AList" "HOL-Library.Log_Nat"
begin


section \<open>JavaScript values as the code sees them\<close>

text \<open>
  The client reads response bodies and token payloads with \<^verbatim>\<open>response.json()\<close> and
  \<^verbatim>\<open>JSON.parse\<close>, whose results are untyped (\<^verbatim>\<open>any\<close>).  The code then applies
  \<^verbatim>\<open>||\<close>, \<^verbatim>\<open>if (x)\<close>, property reads and string conversion to them, so the model
  keeps the JavaScript value and writes these operations out.

  Strings are byte lists: a well-formed JavaScript string is represented by its UTF-8
  encoding.  A Number is an IEEE-754 double: \<open>JsFinite r\<close> stands for the finite double of
  value \<open>r\<close> (the two zeros are not told apart: the code never divides by one nor
  prints its sign); section \<open>Numbers\<close> below gives the rounding that yields one.
\<close>

datatype jsnum = NaN | JsFinite rat | PosInfinity | NegInfinity

datatype jsval =
    JUndefined
  | JNull
  | JBool bool
  | JNum jsnum
  | JStr string
  | JArr "jsval list"
  | JObj "(string \<times> jsval) list"

text \<open>
  What the JavaScript engine supplies and the repository does not define: the decimal
  rendering of a number, the conversion of a string to a number, and the message of the
  \<^verbatim>\<open>TypeError\<close> raised by reading a property of \<^verbatim>\<open>null\<close> or \<^verbatim>\<open>undefined\<close>.
  Every function below takes them as a parameter.
\<close>

record runtime =
  number_to_string :: "jsnum \<Rightarrow> string"
  string_to_number :: "string \<Rightarrow> jsnum"
  nullish_read_message :: "jsval \<Rightarrow> string \<Rightarrow> string"

fun truthy :: "jsval \<Rightarrow> bool" where
  "truthy JUndefined = False"
| "truthy JNull = False"
| "truthy (JBool b) = b"
| "truthy (JNum x) = (x \<noteq> JsFinite 0 \<and> x \<noteq> NaN)"
| "truthy (JStr s) = (s \<noteq> [])"
| "truthy (JArr xs) = True"
| "truthy (JObj kvs) = True"

definition js_or :: "jsval \<Rightarrow> jsval \<Rightarrow> jsval" where
  "js_or a b = (if truthy a then a else b)"

fun comma_join :: "string list \<Rightarrow> string" where
  "comma_join [] = []"
| "comma_join [s] = s"
| "comma_join (s # t # ss) = s @ '','' @ comma_join (t # ss)"

fun js_to_string :: "runtime \<Rightarrow> jsval \<Rightarrow> string" where
  "js_to_string rt JUndefined = ''undefined''"
| "js_to_string rt JNull = ''null''"
| "js_to_string rt (JBool b) = (if b then ''true'' else ''false'')"
| "js_to_string rt (JNum r) = number_to_string rt r"
| "js_to_string rt (JStr s) = s"
| "js_to_string rt (JArr xs) =
     comma_join (map (\<lambda>x. if x = JNull \<or> x = JUndefined then [] else js_to_string rt x) xs)"
| "js_to_string rt (JObj kvs) = ''[object Object]''"

section \<open>Responses, errors, requests\<close>

text \<open>
  A \<^verbatim>\<open>Response\<close> as \<^verbatim>\<open>apiRequest\<close> uses it: its status, its status text and what
  \<^verbatim>\<open>response.json()\<close> settles to (\<open>Inl m\<close>: it rejects with a \<^verbatim>\<open>SyntaxError\<close> of
  message \<open>m\<close>; \<open>Inr v\<close>: the parsed body).
\<close>

record response =
  status :: nat
  statusText :: string
  json :: "string + jsval"

definition ok :: "response \<Rightarrow> bool" where
  "ok r = (200 \<le> status r \<and> status r \<le> 299)"

text \<open>
  \<^verbatim>\<open>class ApiError extends Error { constructor(message, public status, public response?) }\<close>;
  the other two are the engine's errors that can leave \<^verbatim>\<open>apiRequest\<close>.
\<close>

datatype js_error =
    ApiError string nat "response option"
  | TypeError string
  | SyntaxError string

fun error_message :: "js_error \<Rightarrow> string" where
  "error_message (ApiError m s r) = m"
| "error_message (TypeError m) = m"
| "error_message (SyntaxError m) = m"

definition nullish :: "jsval \<Rightarrow> bool" where
  "nullish v = (v = JNull \<or> v = JUndefined)"

text \<open>
  \<^verbatim>\<open>v.k\<close> for a value that is neither \<^verbatim>\<open>null\<close> nor \<^verbatim>\<open>undefined\<close>.  The code reads the
  keys \<^verbatim>\<open>detail\<close>, \<^verbatim>\<open>data\<close>, \<^verbatim>\<open>access_token\<close>, \<^verbatim>\<open>refresh_token\<close>, \<^verbatim>\<open>exp\<close> and
  \<^verbatim>\<open>is_admin\<close> only, none of which is a property of a primitive, of an array or of
  \<^verbatim>\<open>Object.prototype\<close>.
\<close>

definition member :: "jsval \<Rightarrow> string \<Rightarrow> jsval" where
  "member v k =
     (case v of
        JObj kvs \<Rightarrow> (case map_of kvs k of None \<Rightarrow> JUndefined | Some x \<Rightarrow> x)
      | _ \<Rightarrow> JUndefined)"

text \<open>\<^verbatim>\<open>v.k\<close> in general: reading through \<^verbatim>\<open>null\<close> or \<^verbatim>\<open>undefined\<close> throws.\<close>

definition get_prop :: "runtime \<Rightarrow> jsval \<Rightarrow> string \<Rightarrow> js_error + jsval" where
  "get_prop rt v k =
     (if nullish v then Inl (TypeError (nullish_read_message rt v k)) else Inr (member v k))"

record fetch_options =
  opt_method :: "string option"
  opt_headers :: "string \<rightharpoonup> string"
  opt_body :: "string option"

text \<open>The default \<^verbatim>\<open>options = {}\<close>.\<close>

definition no_options :: fetch_options where
  "no_options = \<lparr> opt_method = None, opt_headers = Map.empty, opt_body = None \<rparr>"

record request =
  url :: string
  req_method :: "string option"
  req_headers :: "string \<rightharpoonup> string"
  req_body :: "string option"

datatype fetch_result = Rejected string | Responded response

text \<open>
  The network answers a request given the requests sent before it.
\<close>

type_synonym network = "request list \<Rightarrow> request \<Rightarrow> fetch_result"

section \<open>The browsing context\<close>

record world =
  has_window :: bool
  localStorage :: "string \<rightharpoonup> string"
  pathname :: string
  navigations :: "string list"
  dispatched :: "string list"
  fetches :: "request list"
  router_pushes :: "string list"
  env_api_base :: "string option"
  auth_provider_mounted :: bool
  clock :: int

text \<open>
  \<open>has_window\<close> is \<^verbatim>\<open>typeof window !== "undefined"\<close>; \<open>navigations\<close> lists the values
  assigned to \<^verbatim>\<open>window.location.href\<close>, oldest first (the assignment starts a
  navigation; \<open>pathname\<close> still is the current document's); \<open>dispatched\<close> lists the
  events given to \<^verbatim>\<open>window.dispatchEvent\<close>; \<open>fetches\<close> lists the calls of \<^verbatim>\<open>fetch\<close>,
  whoever made them; \<open>router_pushes\<close> lists the arguments of \<^verbatim>\<open>router.push\<close>.
  \<open>auth_provider_mounted\<close> tells whether \<^verbatim>\<open>AuthProvider\<close> is mounted, that is whether its
  effect has registered \<^verbatim>\<open>handleTokenRefresh\<close> for the \<^verbatim>\<open>tokenRefreshed\<close> event;
  \<open>clock\<close> is what \<^verbatim>\<open>Date.now()\<close> returns.  Console output is left out.
\<close>

definition API_BASE_URL :: "world \<Rightarrow> string" where
  "API_BASE_URL w =
     (case env_api_base w of
        None \<Rightarrow> ''http://localhost:8080''
      | Some s \<Rightarrow> if s \<noteq> [] then s else ''http://localhost:8080'')"

definition getItem :: "world \<Rightarrow> string \<Rightarrow> jsval" where
  "getItem w k = (case localStorage w k of None \<Rightarrow> JNull | Some s \<Rightarrow> JStr s)"

definition setItem :: "runtime \<Rightarrow> string \<Rightarrow> jsval \<Rightarrow> world \<Rightarrow> world" where
  "setItem rt k v w = w\<lparr>localStorage := (localStorage w)(k \<mapsto> js_to_string rt v)\<rparr>"

definition removeItem :: "string \<Rightarrow> world \<Rightarrow> world" where
  "removeItem k w = w\<lparr>localStorage := (localStorage w)(k := None)\<rparr>"

definition issue :: "request \<Rightarrow> world \<Rightarrow> world" where
  "issue rq w = w\<lparr>fetches := fetches w @ [rq]\<rparr>"

definition redirect_to_login :: "world \<Rightarrow> world" where
  "redirect_to_login w =
     (if \<not> prefix ''/login'' (pathname w) \<and> \<not> prefix ''/auth'' (pathname w)
      then w\<lparr>navigations := navigations w @ [''/login'']\<rparr>
      else w)"

definition purge :: "world \<Rightarrow> world" where
  "purge w = removeItem ''refresh_token'' (removeItem ''access_token'' w)"

section \<open>JSON.stringify of the refresh request's body\<close>

definition hex_digit :: "nat \<Rightarrow> char" where
  "hex_digit n = (if n < 10 then char_of (48 + n) else char_of (87 + n))"

definition json_quote_char :: "char \<Rightarrow> string" where
  "json_quote_char c =
     (let n = (of_char c :: nat) in
      if n = 8 then [CHR 0x5C, CHR ''b'']
      else if n = 9 then [CHR 0x5C, CHR ''t'']
      else if n = 10 then [CHR 0x5C, CHR ''n'']
      else if n = 12 then [CHR 0x5C, CHR ''f'']
      else if n = 13 then [CHR 0x5C, CHR ''r'']
      else if n = 34 then [CHR 0x5C, CHR 0x22]
      else if n = 92 then [CHR 0x5C, CHR 0x5C]
      else if n < 32 then [CHR 0x5C] @ ''u00'' @ [hex_digit (n div 16), hex_digit (n mod 16)]
      else [c])"

definition json_quote :: "string \<Rightarrow> string" where
  "json_quote s = [CHR 0x22] @ concat (map json_quote_char s) @ [CHR 0x22]"

definition refresh_body :: "string \<Rightarrow> string" where
  "refresh_body refreshToken =
     ''{'' @ json_quote ''refresh_token'' @ '':'' @ json_quote refreshToken @ ''}''"

section \<open>The requests of apiRequest\<close>

text \<open>
  \<^verbatim>\<open>doRequest(tokenOverride?)\<close>: the default headers, then the caller's, then the bearer
  token (the override, else the stored access token when there is a window).
\<close>

definition build_request :: "runtime \<Rightarrow> string \<Rightarrow> fetch_options \<Rightarrow> jsval \<Rightarrow> world \<Rightarrow> request" where
  "build_request rt u options tokenOverride w =
     (let headers = [''Content-Type'' \<mapsto> ''application/json'',
                     ''ngrok-skip-browser-warning'' \<mapsto> ''true''] ++ opt_headers options;
          token = js_or tokenOverride (if has_window w then getItem w ''access_token'' else JNull)
      in \<lparr> url = u,
           req_method = opt_method options,
           req_headers = (if truthy token
                          then headers(''Authorization'' \<mapsto> ''Bearer '' @ js_to_string rt token)
                          else headers),
           req_body = opt_body options \<rparr>)"

definition refresh_request :: "world \<Rightarrow> string \<Rightarrow> request" where
  "refresh_request w refreshToken =
     \<lparr> url = API_BASE_URL w @ ''/api/auth/refresh'',
       req_method = Some ''POST'',
       req_headers = [''Content-Type'' \<mapsto> ''application/json'',
                      ''ngrok-skip-browser-warning'' \<mapsto> ''true''],
       req_body = Some (refresh_body refreshToken) \<rparr>"

section \<open>Numbers\<close>

text \<open>
  The engine rounds every real it has to store (the value of a decimal literal, an exact
  product) to the nearest double, ties to the even significand: \<open>to_double\<close>.  A double is
  \<open>n * 2 ^ (e - 52)\<close> with \<open>n < 2 ^ 53\<close> and \<open>- 1022 \<le> e \<le> 1023\<close>; a magnitude that would
  round to \<open>2 ^ 1024\<close> or more becomes an infinity.
\<close>

definition pow2 :: "int \<Rightarrow> rat" where
  "pow2 k = (if 0 \<le> k then 2 ^ nat k else 1 / 2 ^ nat (- k))"

text \<open>The integer part of the binary logarithm of a positive rational.\<close>

definition binary_exponent :: "rat \<Rightarrow> int" where
  "binary_exponent a =
     (case quotient_of a of
        (p, q) \<Rightarrow> (let k = bitlen p - bitlen q in if pow2 k \<le> a then k else k - 1))"

definition round_half_even :: "rat \<Rightarrow> int" where
  "round_half_even x =
     (let f = \<lfloor>x\<rfloor>; d = x - of_int f in
      if d < 1 / 2 then f
      else if 1 / 2 < d then f + 1
      else if even f then f else f + 1)"

definition to_double :: "rat \<Rightarrow> jsnum" where
  "to_double x =
     (if x = 0 then JsFinite 0
      else
        (let a = \<bar>x\<bar>; e = max (binary_exponent a) (- 1022) in
         if 1023 < e then (if x < 0 then NegInfinity else PosInfinity)
         else
           (let quantum = pow2 (e - 52); n = round_half_even (a / quantum) in
            if e = 1023 \<and> 9007199254740992 \<le> n
            then (if x < 0 then NegInfinity else PosInfinity)
            else JsFinite ((if x < 0 then - 1 else 1) * of_int n * quantum))))"

text \<open>The arithmetic of \<^verbatim>\<open>decoded.exp * 1000 > Date.now()\<close>: \<^verbatim>\<open>ToNumber\<close>, the product
  rounded as every result is, and the comparison with what \<^verbatim>\<open>Date.now()\<close> returns, a
  whole number of milliseconds that is a double.\<close>

definition to_number :: "runtime \<Rightarrow> jsval \<Rightarrow> jsnum" where
  "to_number rt v =
     (case v of
        JUndefined \<Rightarrow> NaN
      | JNull \<Rightarrow> JsFinite 0
      | JBool b \<Rightarrow> JsFinite (if b then 1 else 0)
      | JNum x \<Rightarrow> x
      | JStr s \<Rightarrow> string_to_number rt s
      | JArr xs \<Rightarrow> string_to_number rt (js_to_string rt v)
      | JObj kvs \<Rightarrow> string_to_number rt (js_to_string rt v))"

definition times_1000 :: "jsnum \<Rightarrow> jsnum" where
  "times_1000 x = (case x of JsFinite r \<Rightarrow> to_double (r * 1000) | _ \<Rightarrow> x)"

definition greater_than :: "jsnum \<Rightarrow> int \<Rightarrow> bool" where
  "greater_than x n =
     (case x of JsFinite r \<Rightarrow> of_int n < r | PosInfinity \<Rightarrow> True | _ \<Rightarrow> False)"

section \<open>The token codec\<close>

text \<open>
  \<^verbatim>\<open>decodeToken\<close> (and \<^verbatim>\<open>parseJwt\<close>, the same code) calls \<^verbatim>\<open>split\<close>, \<^verbatim>\<open>replace\<close>,
  \<^verbatim>\<open>atob\<close>, \<^verbatim>\<open>decodeURIComponent\<close> and \<^verbatim>\<open>JSON.parse\<close>.  They are modelled from their
  standards (ECMA-262, ECMA-404, the forgiving-base64 decoding of the WHATWG Infra
  standard) on byte strings; a result \<open>None\<close> is a thrown exception.
\<close>

subsection \<open>split and replace\<close>

fun split_on :: "char \<Rightarrow> string \<Rightarrow> string list" where
  "split_on c [] = [[]]"
| "split_on c (x # xs) =
     (if x = c then [] # split_on c xs
      else (case split_on c xs of [] \<Rightarrow> [[x]] | seg # segs \<Rightarrow> (x # seg) # segs))"

definition replace_all :: "char \<Rightarrow> char \<Rightarrow> string \<Rightarrow> string" where
  "replace_all a b s = map (\<lambda>c. if c = a then b else c) s"

subsection \<open>atob\<close>

definition ascii_whitespace :: "char \<Rightarrow> bool" where
  "ascii_whitespace c =
     (let n = (of_char c :: nat) in n = 9 \<or> n = 10 \<or> n = 12 \<or> n = 13 \<or> n = 32)"

definition base64_value :: "char \<Rightarrow> nat option" where
  "base64_value c =
     (let n = (of_char c :: nat) in
      if 65 \<le> n \<and> n \<le> 90 then Some (n - 65)
      else if 97 \<le> n \<and> n \<le> 122 then Some (n - 71)
      else if 48 \<le> n \<and> n \<le> 57 then Some (n + 4)
      else if n = 43 then Some 62
      else if n = 47 then Some 63
      else None)"

text \<open>A length divisible by four may end in one or two \<^verbatim>\<open>=\<close>, which are removed.\<close>

definition strip_padding :: "string \<Rightarrow> string" where
  "strip_padding s =
     (if length s mod 4 = 0 \<and> s \<noteq> [] \<and> last s = CHR ''=''
      then (if butlast s \<noteq> [] \<and> last (butlast s) = CHR ''='' then butlast (butlast s)
            else butlast s)
      else s)"

text \<open>Four sextets are three bytes; a rest of two or three sextets is one or two bytes.\<close>

fun sextets_to_bytes :: "nat list \<Rightarrow> nat list" where
  "sextets_to_bytes (a # b # c # d # rest) =
     (4 * a + b div 16) # (16 * (b mod 16) + c div 4) # (64 * (c mod 4) + d) # sextets_to_bytes rest"
| "sextets_to_bytes [a, b, c] = [4 * a + b div 16, 16 * (b mod 16) + c div 4]"
| "sextets_to_bytes [a, b] = [4 * a + b div 16]"
| "sextets_to_bytes [a] = []"
| "sextets_to_bytes [] = []"

text \<open>The result is a binary string, given as the list of its character codes.\<close>

definition atob :: "string \<Rightarrow> nat list option" where
  "atob input =
     (let data = strip_padding (filter (\<lambda>c. \<not> ascii_whitespace c) input) in
      if length data mod 4 = 1 then None
      else (case those (map base64_value data) of
              None \<Rightarrow> None
            | Some sextets \<Rightarrow> Some (sextets_to_bytes sextets)))"

subsection \<open>The percent-encoding of each character code\<close>

fun to_hex :: "nat \<Rightarrow> string" where
  "to_hex n = (if n < 16 then [hex_digit n] else to_hex (n div 16) @ [hex_digit (n mod 16)])"

declare to_hex.simps [simp del]

text \<open>\<^verbatim>\<open>"%" + ("00" + c.charCodeAt(0).toString(16)).slice(-2)\<close>\<close>

definition percent_code :: "nat \<Rightarrow> string" where
  "percent_code n = ''%'' @ (let h = ''00'' @ to_hex n in drop (length h - 2) h)"

subsection \<open>decodeURIComponent\<close>

definition hex_value :: "char \<Rightarrow> nat option" where
  "hex_value c =
     (let n = (of_char c :: nat) in
      if 48 \<le> n \<and> n \<le> 57 then Some (n - 48)
      else if 97 \<le> n \<and> n \<le> 102 then Some (n - 87)
      else if 65 \<le> n \<and> n \<le> 70 then Some (n - 55)
      else None)"

datatype uri_item = Literal char | Escaped nat

fun uri_items :: "string \<Rightarrow> uri_item list option" where
  "uri_items [] = Some []"
| "uri_items (c # cs) =
     (if c = CHR ''%'' then
        (case cs of
           h # l # rest \<Rightarrow>
             (case hex_value h of
                None \<Rightarrow> None
              | Some a \<Rightarrow>
                  (case hex_value l of
                     None \<Rightarrow> None
                   | Some b \<Rightarrow> map_option (Cons (Escaped (16 * a + b))) (uri_items rest)))
         | _ \<Rightarrow> None)
      else map_option (Cons (Literal c)) (uri_items cs))"

text \<open>
  The escaped octets must be well-formed UTF-8 (no overlong form, no surrogate, nothing
  above U+10FFFF): \<open>pending\<close> continuation octets are still due, the next one within
  \<open>lo..hi\<close>.
\<close>

fun utf8_items_ok :: "nat \<Rightarrow> nat \<Rightarrow> nat \<Rightarrow> uri_item list \<Rightarrow> bool" where
  "utf8_items_ok pending lo hi [] = (pending = 0)"
| "utf8_items_ok pending lo hi (Literal c # rest) = (pending = 0 \<and> utf8_items_ok 0 128 191 rest)"
| "utf8_items_ok pending lo hi (Escaped b # rest) =
     (if pending = 0 then
        (if b < 128 then utf8_items_ok 0 128 191 rest
         else if 194 \<le> b \<and> b \<le> 223 then utf8_items_ok 1 128 191 rest
         else if b = 224 then utf8_items_ok 2 160 191 rest
         else if (225 \<le> b \<and> b \<le> 236) \<or> b = 238 \<or> b = 239 then utf8_items_ok 2 128 191 rest
         else if b = 237 then utf8_items_ok 2 128 159 rest
         else if b = 240 then utf8_items_ok 3 144 191 rest
         else if 241 \<le> b \<and> b \<le> 243 then utf8_items_ok 3 128 191 rest
         else if b = 244 then utf8_items_ok 3 128 143 rest
         else False)
      else lo \<le> b \<and> b \<le> hi \<and> utf8_items_ok (pending - 1) 128 191 rest)"

fun item_char :: "uri_item \<Rightarrow> char" where
  "item_char (Literal c) = c"
| "item_char (Escaped b) = char_of b"

definition decodeURIComponent :: "string \<Rightarrow> string option" where
  "decodeURIComponent s =
     (case uri_items s of
        None \<Rightarrow> None
      | Some items \<Rightarrow> if utf8_items_ok 0 128 191 items then Some (map item_char items) else None)"

subsection \<open>JSON.parse\<close>

definition json_ws :: "char \<Rightarrow> bool" where
  "json_ws c = (let n = (of_char c :: nat) in n = 32 \<or> n = 9 \<or> n = 10 \<or> n = 13)"

fun skip_ws :: "string \<Rightarrow> string" where
  "skip_ws [] = []"
| "skip_ws (c # cs) = (if json_ws c then skip_ws cs else c # cs)"

text \<open>A string's content: raw bytes and the code units of \<^verbatim>\<open>\uXXXX\<close> escapes.\<close>

datatype str_unit = Raw char | CodeUnit nat

definition simple_escape :: "char \<Rightarrow> char option" where
  "simple_escape e =
     (if e = CHR 0x22 then Some (CHR 0x22)
      else if e = CHR 0x5C then Some (CHR 0x5C)
      else if e = CHR ''/'' then Some (CHR ''/'')
      else if e = CHR ''b'' then Some (CHR 0x08)
      else if e = CHR ''f'' then Some (CHR 0x0C)
      else if e = CHR ''n'' then Some (CHR 0x0A)
      else if e = CHR ''r'' then Some (CHR 0x0D)
      else if e = CHR ''t'' then Some (CHR 0x09)
      else None)"

definition hex4_value :: "char \<Rightarrow> char \<Rightarrow> char \<Rightarrow> char \<Rightarrow> nat option" where
  "hex4_value a b c d =
     (case (hex_value a, hex_value b, hex_value c, hex_value d) of
        (Some w, Some x, Some y, Some z) \<Rightarrow> Some (((w * 16 + x) * 16 + y) * 16 + z)
      | _ \<Rightarrow> None)"

text \<open>After the opening quote, up to and with the closing one.\<close>

fun string_units :: "string \<Rightarrow> (str_unit list \<times> string) option" where
  "string_units [] = None"
| "string_units (c # cs) =
     (if c = CHR 0x22 then Some ([], cs)
      else if c = CHR 0x5C then
        (case cs of
           [] \<Rightarrow> None
         | e # rest \<Rightarrow>
             if e = CHR ''u'' then
               (case rest of
                  a # b # c # d # rest' \<Rightarrow>
                    (case hex4_value a b c d of
                       None \<Rightarrow> None
                     | Some u \<Rightarrow> map_option (\<lambda>(us, r). (CodeUnit u # us, r)) (string_units rest'))
                | _ \<Rightarrow> None)
             else
               (case simple_escape e of
                  None \<Rightarrow> None
                | Some ch \<Rightarrow> map_option (\<lambda>(us, r). (Raw ch # us, r)) (string_units rest)))
      else if (of_char c :: nat) < 32 then None
      else map_option (\<lambda>(us, r). (Raw c # us, r)) (string_units cs))"

text \<open>
  UTF-8 of a code point; a surrogate pair of escapes is one code point, a lone surrogate
  is encoded like any other code unit.
\<close>

definition utf8_encode :: "nat \<Rightarrow> string" where
  "utf8_encode cp =
     (if cp < 128 then [char_of cp]
      else if cp < 2048 then [char_of (192 + cp div 64), char_of (128 + cp mod 64)]
      else if cp < 65536 then
        [char_of (224 + cp div 4096), char_of (128 + cp div 64 mod 64), char_of (128 + cp mod 64)]
      else
        [char_of (240 + cp div 262144), char_of (128 + cp div 4096 mod 64),
         char_of (128 + cp div 64 mod 64), char_of (128 + cp mod 64)])"

fun units_to_string :: "str_unit list \<Rightarrow> string" where
  "units_to_string [] = []"
| "units_to_string (Raw c # rest) = c # units_to_string rest"
| "units_to_string (CodeUnit h # CodeUnit l # rest) =
     (if 55296 \<le> h \<and> h < 56320 \<and> 56320 \<le> l \<and> l < 57344
      then utf8_encode (65536 + (h - 55296) * 1024 + (l - 56320)) @ units_to_string rest
      else utf8_encode h @ units_to_string (CodeUnit l # rest))"
| "units_to_string (CodeUnit u # rest) = utf8_encode u @ units_to_string rest"

text \<open>
  Number literals: \<^verbatim>\<open>-? (0 | [1-9][0-9]*) (. [0-9]+)? ([eE] [+-]? [0-9]+)?\<close>.
  \<open>parse_number\<close> gives the real a literal denotes; \<^verbatim>\<open>JSON.parse\<close> returns the double
  nearest to it, which is what \<open>JSON_parse\<close> below does with \<open>to_double\<close>.
\<close>

definition is_digit :: "char \<Rightarrow> bool" where
  "is_digit c = (48 \<le> (of_char c :: nat) \<and> (of_char c :: nat) \<le> 57)"

fun digits_value :: "int \<Rightarrow> string \<Rightarrow> int option" where
  "digits_value acc [] = Some acc"
| "digits_value acc (c # cs) =
     (let n = (of_char c :: nat) in
      if 48 \<le> n \<and> n \<le> 57 then digits_value (10 * acc + (int n - 48)) cs else None)"

definition digits_int :: "string \<Rightarrow> int" where
  "digits_int ds = (case digits_value 0 ds of None \<Rightarrow> 0 | Some n \<Rightarrow> n)"

definition parse_int_part :: "string \<Rightarrow> (int \<times> string) option" where
  "parse_int_part s =
     (case s of
        [] \<Rightarrow> None
      | c # cs \<Rightarrow>
          if c = CHR ''0'' then Some (0, cs)
          else if is_digit c then
            Some (digits_int (c # takeWhile is_digit cs), dropWhile is_digit cs)
          else None)"

definition parse_fraction :: "string \<Rightarrow> (rat \<times> string) option" where
  "parse_fraction s =
     (case s of
        c # cs \<Rightarrow>
          if c = CHR ''.'' then
            (let ds = takeWhile is_digit cs in
             if ds = [] then None
             else Some (of_int (digits_int ds) / 10 ^ length ds, dropWhile is_digit cs))
          else Some (0, s)
      | [] \<Rightarrow> Some (0, s))"

definition parse_exponent :: "string \<Rightarrow> (int \<times> string) option" where
  "parse_exponent s =
     (case s of
        c # cs \<Rightarrow>
          if c = CHR ''e'' \<or> c = CHR ''E'' then
            (let (negative, cs') =
                   (case cs of
                      d # ds \<Rightarrow> if d = CHR ''-'' then (True, ds)
                                else if d = CHR ''+'' then (False, ds) else (False, cs)
                    | [] \<Rightarrow> (False, cs));
                 ds = takeWhile is_digit cs'
             in if ds = [] then None
                else Some (if negative then - digits_int ds else digits_int ds,
                           dropWhile is_digit cs'))
          else Some (0, s)
      | [] \<Rightarrow> Some (0, s))"

definition scale10 :: "rat \<Rightarrow> int \<Rightarrow> rat" where
  "scale10 r e = (if 0 \<le> e then r * 10 ^ nat e else r / 10 ^ nat (- e))"

definition parse_number :: "string \<Rightarrow> (rat \<times> string) option" where
  "parse_number s =
     (let (negative, s1) = (case s of c # cs \<Rightarrow> if c = CHR ''-'' then (True, cs) else (False, s)
                                     | [] \<Rightarrow> (False, s))
      in case parse_int_part s1 of
           None \<Rightarrow> None
         | Some (ip, s2) \<Rightarrow>
             (case parse_fraction s2 of
                None \<Rightarrow> None
              | Some (fr, s3) \<Rightarrow>
                  (case parse_exponent s3 of
                     None \<Rightarrow> None
                   | Some (e, s4) \<Rightarrow>
                       Some (scale10 ((if negative then - 1 else 1) * (of_int ip + fr)) e, s4))))"

definition parse_literal :: "string \<Rightarrow> (jsval \<times> string) option" where
  "parse_literal s =
     (if take 4 s = ''true'' then Some (JBool True, drop 4 s)
      else if take 5 s = ''false'' then Some (JBool False, drop 5 s)
      else if take 4 s = ''null'' then Some (JNull, drop 4 s)
      else map_option (\<lambda>(r, rest). (JNum (JsFinite r), rest)) (parse_number s))"

definition parse_string :: "string \<Rightarrow> (string \<times> string) option" where
  "parse_string s = map_option (\<lambda>(us, r). (units_to_string us, r)) (string_units s)"

lemma length_skip_ws: "length (skip_ws s) \<le> length s"
  by (induction s) auto

lemma skip_ws_Cons_shorter: "skip_ws s = c # cs \<Longrightarrow> length cs < length s"
  using length_skip_ws [of s] by simp

text \<open>
  Values, the elements of an array after \<^verbatim>\<open>[\<close> and the members of an object after
  \<^verbatim>\<open>{\<close>.  Every call of \<open>parse_value\<close> that succeeds leaves a shorter text
  (\<open>parse_value_shorter\<close>); the length tests say so where the recursion needs it, so that
  it is seen to end.
\<close>

function parse_value :: "string \<Rightarrow> (jsval \<times> string) option"
  and parse_elements :: "jsval list \<Rightarrow> string \<Rightarrow> (jsval list \<times> string) option"
  and parse_members :: "(string \<times> jsval) list \<Rightarrow> string \<Rightarrow> ((string \<times> jsval) list \<times> string) option"
where
  "parse_value s =
     (case skip_ws s of
        [] \<Rightarrow> None
      | c # cs \<Rightarrow>
          if c = CHR ''{'' then
            (case skip_ws cs of
               [] \<Rightarrow> None
             | d # ds \<Rightarrow>
                 if d = CHR ''}'' then Some (JObj [], ds)
                 else map_option (\<lambda>(kvs, r). (JObj kvs, r)) (parse_members [] (d # ds)))
          else if c = CHR ''['' then
            (case skip_ws cs of
               [] \<Rightarrow> None
             | d # ds \<Rightarrow>
                 if d = CHR '']'' then Some (JArr [], ds)
                 else map_option (\<lambda>(vs, r). (JArr vs, r)) (parse_elements [] (d # ds)))
          else if c = CHR 0x22 then map_option (\<lambda>(str, r). (JStr str, r)) (parse_string cs)
          else parse_literal (c # cs))"
| "parse_elements acc s =
     (case parse_value s of
        None \<Rightarrow> None
      | Some (v, r) \<Rightarrow>
          if length r < length s then
            (case skip_ws r of
               [] \<Rightarrow> None
             | c # cs \<Rightarrow>
                 if c = CHR '','' then parse_elements (acc @ [v]) cs
                 else if c = CHR '']'' then Some (acc @ [v], cs)
                 else None)
          else None)"
| "parse_members acc s =
     (case skip_ws s of
        [] \<Rightarrow> None
      | q # cs \<Rightarrow>
          if q = CHR 0x22 then
            (case parse_string cs of
               None \<Rightarrow> None
             | Some (k, r) \<Rightarrow>
                 (case skip_ws r of
                    [] \<Rightarrow> None
                  | colon # r1 \<Rightarrow>
                      if colon = CHR '':'' \<and> length r1 < length s then
                        (case parse_value r1 of
                           None \<Rightarrow> None
                         | Some (v, r2) \<Rightarrow>
                             if length r2 < length r1 then
                               (case skip_ws r2 of
                                  [] \<Rightarrow> None
                                | e # es \<Rightarrow>
                                    if e = CHR '','' then parse_members (AList.update k v acc) es
                                    else if e = CHR ''}'' then Some (AList.update k v acc, es)
                                    else None)
                             else None)
                      else None))
          else None)"
  by pat_completeness auto
termination
  by (relation "measure (\<lambda>x. case x of
                   Inl s \<Rightarrow> 2 * length s
                 | Inr (Inl (acc, s)) \<Rightarrow> 2 * length s + 1
                 | Inr (Inr (acc, s)) \<Rightarrow> 2 * length s + 1)")
     (auto dest!: skip_ws_Cons_shorter)

declare parse_value.simps [simp del] parse_elements.simps [simp del] parse_members.simps [simp del]

text \<open>
  The value a JSON text denotes, its numbers being the reals their literals denote
  (\<open>JSON_text\<close>), and what \<^verbatim>\<open>JSON.parse\<close> returns for it: the same value with every
  number rounded to the nearest double.
\<close>

definition JSON_text :: "string \<Rightarrow> jsval option" where
  "JSON_text text =
     (case parse_value text of
        None \<Rightarrow> None
      | Some (v, rest) \<Rightarrow> if skip_ws rest = [] then Some v else None)"

fun to_doubles :: "jsval \<Rightarrow> jsval" where
  "to_doubles (JNum x) = JNum (case x of JsFinite r \<Rightarrow> to_double r | _ \<Rightarrow> x)"
| "to_doubles (JArr xs) = JArr (map to_doubles xs)"
| "to_doubles (JObj kvs) = JObj (map (\<lambda>(k, v). (k, to_doubles v)) kvs)"
| "to_doubles v = v"

definition JSON_parse :: "string \<Rightarrow> jsval option" where
  "JSON_parse text = map_option to_doubles (JSON_text text)"

subsection \<open>decodeToken\<close>

text \<open>
  What \<^verbatim>\<open>decodeToken\<close> makes of the second segment: \<^verbatim>\<open>replace\<close> twice, \<^verbatim>\<open>atob\<close>, the
  percent-encoding of every character code, \<^verbatim>\<open>decodeURIComponent\<close>, \<^verbatim>\<open>JSON.parse\<close>.
  Any exception ends in the \<^verbatim>\<open>catch\<close>, which returns \<^verbatim>\<open>null\<close>.
\<close>

definition decode_payload :: "string \<Rightarrow> jsval" where
  "decode_payload base64Url =
     (let base64 = replace_all (CHR ''_'') (CHR ''/'') (replace_all (CHR ''-'') (CHR ''+'') base64Url) in
      case atob base64 of
        None \<Rightarrow> JNull
      | Some codes \<Rightarrow>
          (case decodeURIComponent (concat (map percent_code codes)) of
             None \<Rightarrow> JNull
           | Some jsonPayload \<Rightarrow>
               (case JSON_parse jsonPayload of None \<Rightarrow> JNull | Some v \<Rightarrow> v)))"

text \<open>
  \<^verbatim>\<open>token.split(".")[1]\<close> is \<^verbatim>\<open>undefined\<close> when there is no second segment, and
  \<^verbatim>\<open>undefined.replace\<close> throws inside the same \<^verbatim>\<open>try\<close>.
\<close>

definition decodeToken :: "string \<Rightarrow> jsval" where
  "decodeToken token =
     (case split_on (CHR ''.'') token of
        s0 # base64Url # segs \<Rightarrow> decode_payload base64Url
      | _ \<Rightarrow> JNull)"

text \<open>Called on a value that is not a string, \<^verbatim>\<open>token.split\<close> is not a function.\<close>

definition decodeToken_any :: "jsval \<Rightarrow> jsval" where
  "decodeToken_any v = (case v of JStr token \<Rightarrow> decodeToken token | _ \<Rightarrow> JNull)"

text \<open>
  \<^verbatim>\<open>parseJwt\<close> of the API client is the same function but for \<^verbatim>\<open>window.atob\<close>: where
  there is no window the reference throws, into the same \<^verbatim>\<open>catch\<close>.
\<close>

definition parseJwt :: "world \<Rightarrow> string \<Rightarrow> jsval" where
  "parseJwt w token = (if has_window w then decodeToken token else JNull)"

section \<open>The tokenRefreshed listener\<close>

text \<open>
  \<^verbatim>\<open>window.dispatchEvent\<close> runs the listeners of the event before it returns.  The one
  listener of \<^verbatim>\<open>tokenRefreshed\<close> is \<^verbatim>\<open>handleTokenRefresh\<close> of \<^verbatim>\<open>AuthProvider\<close>, which
  calls \<^verbatim>\<open>checkAuth\<close>.  \<^verbatim>\<open>checkAuth\<close> does not await \<^verbatim>\<open>refreshAuth()\<close>, so inside the
  dispatching call \<^verbatim>\<open>refreshAuth\<close> runs up to its \<^verbatim>\<open>await\<close>: it removes the access token
  when no refresh token is stored, and otherwise sends the request of
  \<^verbatim>\<open>apiClient.refreshToken\<close>.  What \<^verbatim>\<open>refreshAuth\<close> does once that request is answered
  happens after the dispatching call has returned; it is a call that overlaps the
  dispatching one (section \<open>Calls that overlap\<close>).  The listener's writes to the state cells
  of \<^verbatim>\<open>AuthProvider\<close> are not part of the browsing context.  (The \<^verbatim>\<open>storage\<close>
  listener does not run here: a \<^verbatim>\<open>storage\<close> event is delivered to the other documents of
  the origin, not to the one that wrote.)
\<close>

text \<open>\<^verbatim>\<open>decoded && decoded.exp * 1000 > Date.now()\<close>\<close>

definition unexpired :: "runtime \<Rightarrow> int \<Rightarrow> jsval \<Rightarrow> bool" where
  "unexpired rt now decoded =
     (truthy decoded \<and> greater_than (times_1000 (to_number rt (member decoded ''exp''))) now)"

text \<open>The request \<^verbatim>\<open>apiClient.refreshToken(refreshToken)\<close> starts with.\<close>

definition refreshToken_options :: "string \<Rightarrow> fetch_options" where
  "refreshToken_options refreshToken =
     \<lparr> opt_method = Some ''POST'', opt_headers = Map.empty,
       opt_body = Some (refresh_body refreshToken) \<rparr>"

definition refreshAuth_start :: "runtime \<Rightarrow> world \<Rightarrow> world" where
  "refreshAuth_start rt w =
     (let refreshToken = getItem w ''refresh_token'' in
      if \<not> truthy refreshToken then removeItem ''access_token'' w
      else issue (build_request rt (API_BASE_URL w @ ''/api/auth/refresh'')
                    (refreshToken_options (js_to_string rt refreshToken)) JUndefined w) w)"

definition checkAuth_start :: "runtime \<Rightarrow> world \<Rightarrow> world" where
  "checkAuth_start rt w =
     (let token = getItem w ''access_token'' in
      if truthy token then
        (let decoded = decodeToken_any token in
         if unexpired rt (clock w) decoded then w else refreshAuth_start rt w)
      else w)"

definition dispatchEvent :: "runtime \<Rightarrow> string \<Rightarrow> world \<Rightarrow> world" where
  "dispatchEvent rt e w =
     (let w1 = w\<lparr>dispatched := dispatched w @ [e]\<rparr> in
      if auth_provider_mounted w1 \<and> e = ''tokenRefreshed'' then checkAuth_start rt w1 else w1)"


section \<open>apiRequest\<close>

text \<open>\<^verbatim>\<open>errorData.detail || fallback\<close>; reading \<^verbatim>\<open>detail\<close> of \<^verbatim>\<open>null\<close> throws.\<close>

definition detail_or :: "runtime \<Rightarrow> jsval \<Rightarrow> jsval \<Rightarrow> js_error + jsval" where
  "detail_or rt errorData fallback =
     (case get_prop rt errorData ''detail'' of
        Inl e \<Rightarrow> Inl e
      | Inr d \<Rightarrow> Inr (js_or d fallback))"

definition status_message :: "runtime \<Rightarrow> jsval \<Rightarrow> response \<Rightarrow> js_error + jsval" where
  "status_message rt errorData r =
     (case detail_or rt errorData (JStr (statusText r)) of
        Inl e \<Rightarrow> Inl e
      | Inr m \<Rightarrow> Inr (js_or m (JStr ''An error occurred'')))"

text \<open>\<^verbatim>\<open>await response.json().catch(() => ({}))\<close>, and the same with \<^verbatim>\<open>try/catch\<close>.\<close>

definition error_body :: "response \<Rightarrow> jsval" where
  "error_body r = (case json r of Inl m \<Rightarrow> JObj [] | Inr v \<Rightarrow> v)"

text \<open>
  The end of \<^verbatim>\<open>apiRequest\<close>, from \<^verbatim>\<open>if (!response.ok)\<close> on: what the call makes of
  the response it ends with.
\<close>

definition finish :: "runtime \<Rightarrow> response \<Rightarrow> js_error + jsval" where
  "finish rt r =
     (if \<not> ok r then
        (let errorData = error_body r in
         if status r = 403 then
           (case detail_or rt errorData
                   (JStr ''Access forbidden. This endpoint requires admin privileges.'') of
              Inl e \<Rightarrow> Inl e
            | Inr m \<Rightarrow> Inl (ApiError (js_to_string rt m) (status r) (Some r)))
         else
           (case status_message rt errorData r of
              Inl e \<Rightarrow> Inl e
            | Inr m \<Rightarrow> Inl (ApiError (js_to_string rt m) (status r) (Some r))))
      else if status r = 204 then Inr (JObj [])
      else (case json r of Inl m \<Rightarrow> Inl (SyntaxError m) | Inr v \<Rightarrow> Inr v))"

text \<open>
  \<^verbatim>\<open>apiRequest\<close> suspends at each \<^verbatim>\<open>await fetch(...)\<close>.  It is modelled by the code
  between two suspensions: each piece takes what the awaited \<^verbatim>\<open>fetch\<close> settled to and
  either ends the call or names the next request to send.
\<close>

datatype step = Done "js_error + jsval" | Fetching request

text \<open>After \<^verbatim>\<open>let response = await doRequest()\<close>, up to the refresh call.\<close>

definition on_original :: "runtime \<Rightarrow> fetch_result \<Rightarrow> world \<Rightarrow> step \<times> world" where
  "on_original rt fr w =
     (case fr of
        Rejected m \<Rightarrow> (Done (Inl (TypeError m)), w)
      | Responded r \<Rightarrow>
          if status r = 401 then
            (let errorData = error_body r in
             if has_window w then
               (let refreshToken = getItem w ''refresh_token'' in
                if truthy refreshToken then
                  (Fetching (refresh_request w (js_to_string rt refreshToken)), w)
                else
                  (let w1 = redirect_to_login (removeItem ''access_token'' w) in
                   case status_message rt errorData r of
                     Inl e \<Rightarrow> (Done (Inl e), w1)
                   | Inr m \<Rightarrow> (Done (Inl (ApiError (js_to_string rt m) (status r) (Some r))), w1)))
             else
               (case status_message rt errorData r of
                  Inl e \<Rightarrow> (Done (Inl e), w)
                | Inr m \<Rightarrow> (Done (Inl (ApiError (js_to_string rt m) (status r) (Some r))), w)))
          else (Done (finish rt r), w))"

text \<open>
  \<^verbatim>\<open>const tokenData = responseData.data || responseData;\<close>
  \<^verbatim>\<open>const { access_token, refresh_token } = tokenData;\<close>
\<close>

definition read_tokens :: "runtime \<Rightarrow> jsval \<Rightarrow> js_error + jsval \<times> jsval" where
  "read_tokens rt responseData =
     (case get_prop rt responseData ''data'' of
        Inl e \<Rightarrow> Inl e
      | Inr d \<Rightarrow>
          (let tokenData = js_or d responseData in
           case get_prop rt tokenData ''access_token'' of
             Inl e \<Rightarrow> Inl e
           | Inr access_token \<Rightarrow>
               (case get_prop rt tokenData ''refresh_token'' of
                  Inl e \<Rightarrow> Inl e
                | Inr refresh_token \<Rightarrow> Inr (access_token, refresh_token))))"

text \<open>
  The lines that store a refreshed pair and tell the listeners: the access token always,
  the refresh token when the response gave one, then the \<^verbatim>\<open>tokenRefreshed\<close> event,
  whose listener runs before the next line does.
\<close>

definition store_tokens :: "runtime \<Rightarrow> jsval \<Rightarrow> jsval \<Rightarrow> world \<Rightarrow> world" where
  "store_tokens rt access_token refresh_token w =
     (let w1 = setItem rt ''access_token'' access_token w;
          w2 = (if truthy refresh_token then setItem rt ''refresh_token'' refresh_token w1 else w1)
      in dispatchEvent rt ''tokenRefreshed'' w2)"

text \<open>
  The body of the \<^verbatim>\<open>try\<close> after \<^verbatim>\<open>await fetch(refresh)\<close>, up to the retry:
  \<open>Inl e\<close> is an exception thrown inside the \<^verbatim>\<open>try\<close>, \<open>Inr rq\<close> the retry to send.
\<close>

definition refresh_try ::
  "runtime \<Rightarrow> string \<Rightarrow> fetch_options \<Rightarrow> fetch_result \<Rightarrow> world \<Rightarrow> (js_error + request) \<times> world" where
  "refresh_try rt u options fr w =
     (case fr of
        Rejected m \<Rightarrow> (Inl (TypeError m), w)
      | Responded refreshResponse \<Rightarrow>
          if ok refreshResponse then
            (case json refreshResponse of
               Inl m \<Rightarrow> (Inl (SyntaxError m), w)
             | Inr responseData \<Rightarrow>
                 (case read_tokens rt responseData of
                    Inl e \<Rightarrow> (Inl e, w)
                  | Inr (access_token, refresh_token) \<Rightarrow>
                      if truthy access_token then
                        (let w1 = store_tokens rt access_token refresh_token w
                         in (Inr (build_request rt u options access_token w1), w1))
                      else
                        (Inl (ApiError ''Failed to refresh token - no access_token in response''
                                401 (Some refreshResponse)),
                         redirect_to_login (purge w))))
          else
            (let errorData = error_body refreshResponse;
                 w1 = redirect_to_login (purge w)
             in case detail_or rt errorData (JStr (statusText refreshResponse)) of
                  Inl e \<Rightarrow> (Inl e, w1)
                | Inr m \<Rightarrow>
                    (Inl (ApiError (''Failed to refresh token: '' @ js_to_string rt m)
                            401 (Some refreshResponse)),
                     w1)))"

text \<open>The \<^verbatim>\<open>catch (refreshError)\<close> block.\<close>

definition refresh_failed :: "js_error \<Rightarrow> world \<Rightarrow> (js_error + jsval) \<times> world" where
  "refresh_failed refreshError w =
     (Inl (ApiError (''Failed to refresh token: '' @ error_message refreshError) 401 None),
      redirect_to_login (purge w))"

definition on_refresh ::
  "runtime \<Rightarrow> string \<Rightarrow> fetch_options \<Rightarrow> fetch_result \<Rightarrow> world \<Rightarrow> step \<times> world" where
  "on_refresh rt u options fr w =
     (case refresh_try rt u options fr w of
        (Inl e, w1) \<Rightarrow> (case refresh_failed e w1 of (res, w2) \<Rightarrow> (Done res, w2))
      | (Inr rq, w1) \<Rightarrow> (Fetching rq, w1))"

text \<open>
  After \<^verbatim>\<open>response = await doRequest(access_token)\<close>, which still stands inside the
  \<^verbatim>\<open>try\<close>: a rejected retry is caught by the same \<^verbatim>\<open>catch\<close>.
\<close>

definition on_retry :: "runtime \<Rightarrow> fetch_result \<Rightarrow> world \<Rightarrow> (js_error + jsval) \<times> world" where
  "on_retry rt fr w =
     (case fr of
        Rejected m \<Rightarrow> refresh_failed (TypeError m) w
      | Responded r \<Rightarrow> (finish rt r, w))"

text \<open>\<^verbatim>\<open>fetch\<close>: the call is recorded, the network settles it.\<close>

definition do_fetch :: "network \<Rightarrow> request \<Rightarrow> world \<Rightarrow> fetch_result \<times> world" where
  "do_fetch net rq w = (net (fetches w) rq, issue rq w)"

text \<open>
  The call run to its end, no other call being resumed while it waits (calls that
  overlap, the one a listener starts included, are the matter of section
  \<open>Calls that overlap\<close>).
\<close>

definition apiRequest ::
  "runtime \<Rightarrow> network \<Rightarrow> string \<Rightarrow> fetch_options \<Rightarrow> world \<Rightarrow> (js_error + jsval) \<times> world" where
  "apiRequest rt net endpoint options w0 =
     (let u = API_BASE_URL w0 @ endpoint in
      case do_fetch net (build_request rt u options JUndefined w0) w0 of (fr1, w1) \<Rightarrow>
      case on_original rt fr1 w1 of
        (Done res, w2) \<Rightarrow> (res, w2)
      | (Fetching rq2, w2) \<Rightarrow>
          (case do_fetch net rq2 w2 of (fr2, w3) \<Rightarrow>
           case on_refresh rt u options fr2 w3 of
             (Done res, w4) \<Rightarrow> (res, w4)
           | (Fetching rq3, w4) \<Rightarrow>
               (case do_fetch net rq3 w4 of (fr3, w5) \<Rightarrow> on_retry rt fr3 w5)))"

section \<open>The session state of AuthProvider\<close>

text \<open>
  The three \<^verbatim>\<open>useState\<close> cells.  \<^verbatim>\<open>setIsAdmin(decoded.is_admin || false)\<close> stores
  whatever value the token carries, so \<open>isAdmin\<close> is a JavaScript value.
\<close>

record session =
  isAuthenticated :: bool
  isAdmin :: jsval
  isLoading :: bool

definition initial_session :: session where
  "initial_session = \<lparr> isAuthenticated = False, isAdmin = JBool False, isLoading = True \<rparr>"

text \<open>\<^verbatim>\<open>apiClient.refreshToken\<close> and \<^verbatim>\<open>apiClient.logout\<close>.\<close>

definition apiClient_refreshToken ::
  "runtime \<Rightarrow> network \<Rightarrow> string \<Rightarrow> world \<Rightarrow> (js_error + jsval) \<times> world" where
  "apiClient_refreshToken rt net refreshToken w =
     apiRequest rt net ''/api/auth/refresh'' (refreshToken_options refreshToken) w"

definition apiClient_logout :: "runtime \<Rightarrow> network \<Rightarrow> world \<Rightarrow> (js_error + jsval) \<times> world" where
  "apiClient_logout rt net w =
     apiRequest rt net ''/api/auth/logout''
       \<lparr> opt_method = Some ''POST'', opt_headers = Map.empty, opt_body = None \<rparr> w"

definition signed_out :: "session \<Rightarrow> session" where
  "signed_out s = s\<lparr>isAuthenticated := False, isAdmin := JBool False\<rparr>"

definition signed_in_as :: "jsval \<Rightarrow> session \<Rightarrow> session" where
  "signed_in_as decoded s =
     s\<lparr>isAuthenticated := True, isAdmin := js_or (member decoded ''is_admin'') (JBool False)\<rparr>"

text \<open>
  \<^verbatim>\<open>refreshAuth\<close>.  Everything after the call of \<^verbatim>\<open>apiClient.refreshToken\<close> stands in the
  \<^verbatim>\<open>try\<close>; reading \<^verbatim>\<open>response.access_token\<close> of a \<^verbatim>\<open>null\<close> response throws into the
  \<^verbatim>\<open>catch\<close>.
\<close>

definition refreshAuth :: "runtime \<Rightarrow> network \<Rightarrow> world \<times> session \<Rightarrow> world \<times> session" where
  "refreshAuth rt net st =
     (case st of (w, s) \<Rightarrow>
        (let refreshToken = getItem w ''refresh_token'' in
         if \<not> truthy refreshToken then (removeItem ''access_token'' w, signed_out s)
         else
           (case apiClient_refreshToken rt net (js_to_string rt refreshToken) w of
              (Inl e, w1) \<Rightarrow> (purge w1, signed_out s)
            | (Inr response, w1) \<Rightarrow>
                (case get_prop rt response ''access_token'' of
                   Inl e \<Rightarrow> (purge w1, signed_out s)
                 | Inr access_token \<Rightarrow>
                     (let w2 = setItem rt ''access_token'' access_token w1;
                          refresh_token = member response ''refresh_token'';
                          w3 = (if truthy refresh_token
                                then setItem rt ''refresh_token'' refresh_token w2 else w2);
                          decoded = decodeToken_any access_token
                      in if truthy decoded then (w3, signed_in_as decoded s) else (w3, s))))))"

text \<open>
  \<^verbatim>\<open>checkAuth\<close>; \<^verbatim>\<open>Date.now()\<close> is the \<open>clock\<close> of the browsing context, in
  milliseconds.  It does not await
  \<^verbatim>\<open>refreshAuth()\<close>; since \<^verbatim>\<open>refreshAuth\<close> never writes \<open>isLoading\<close> and
  \<^verbatim>\<open>setIsLoading(false)\<close> writes nothing else, the two commute and \<open>refreshAuth\<close> is run to
  its end first.
\<close>

definition checkAuth :: "runtime \<Rightarrow> network \<Rightarrow> world \<times> session \<Rightarrow> world \<times> session" where
  "checkAuth rt net st =
     (case st of (w, s) \<Rightarrow>
        (let token = getItem w ''access_token'' in
         case (if truthy token then
                 (let decoded = decodeToken_any token in
                  if unexpired rt (clock w) decoded then (w, signed_in_as decoded s)
                  else refreshAuth rt net (w, s))
               else (w, signed_out s))
         of (w', s') \<Rightarrow> (w', s'\<lparr>isLoading := False\<rparr>)))"

text \<open>\<^verbatim>\<open>logout\<close>: the \<^verbatim>\<open>finally\<close> block runs whether the call returned or threw.\<close>

definition logout :: "runtime \<Rightarrow> network \<Rightarrow> world \<times> session \<Rightarrow> world \<times> session" where
  "logout rt net st =
     (case st of (w, s) \<Rightarrow>
        (case apiClient_logout rt net w of
           (res, w1) \<Rightarrow>
             ((purge w1)\<lparr>router_pushes := router_pushes (purge w1) @ [''/login'']\<rparr>,
              signed_out s)))"

section \<open>Overlapping calls\<close>

text \<open>
  Several calls of \<^verbatim>\<open>apiRequest\<close> can be in flight at once: each runs until its
  next \<^verbatim>\<open>await fetch(...)\<close> and is resumed when that \<^verbatim>\<open>fetch\<close> settles, and all of them
  share the browsing context.  A call in flight is the position it waits at, with the
  request it waits for.
\<close>

datatype stage = AwaitOriginal | AwaitRefresh | AwaitRetry | Settled "js_error + jsval"

record call =
  call_url :: string
  call_options :: fetch_options
  call_stage :: stage
  call_waiting :: "request option"

text \<open>The call up to its first \<^verbatim>\<open>await\<close>.\<close>

definition start_call :: "runtime \<Rightarrow> string \<Rightarrow> fetch_options \<Rightarrow> world \<Rightarrow> call \<times> world" where
  "start_call rt endpoint options w =
     (let u = API_BASE_URL w @ endpoint;
          rq = build_request rt u options JUndefined w
      in (\<lparr> call_url = u, call_options = options, call_stage = AwaitOriginal,
            call_waiting = Some rq \<rparr>,
          issue rq w))"

definition proceed :: "call \<Rightarrow> stage \<Rightarrow> step \<times> world \<Rightarrow> call \<times> world" where
  "proceed c next sw =
     (case sw of
        (Done res, w) \<Rightarrow> (c\<lparr>call_stage := Settled res, call_waiting := None\<rparr>, w)
      | (Fetching rq, w) \<Rightarrow> (c\<lparr>call_stage := next, call_waiting := Some rq\<rparr>, issue rq w))"

text \<open>The call from the \<^verbatim>\<open>await\<close> it waits at to its next one, given what the awaited \<^verbatim>\<open>fetch\<close> settled to.\<close>

definition resume :: "runtime \<Rightarrow> fetch_result \<Rightarrow> call \<Rightarrow> world \<Rightarrow> call \<times> world" where
  "resume rt fr c w =
     (case call_stage c of
        AwaitOriginal \<Rightarrow> proceed c AwaitRefresh (on_original rt fr w)
      | AwaitRefresh \<Rightarrow> proceed c AwaitRetry (on_refresh rt (call_url c) (call_options c) fr w)
      | AwaitRetry \<Rightarrow>
          (case on_retry rt fr w of
             (res, w') \<Rightarrow> (c\<lparr>call_stage := Settled res, call_waiting := None\<rparr>, w'))
      | Settled res \<Rightarrow> (c, w))"

text \<open>
  A call running alone: the network settles the request it waits for, which is the last
  one sent.
\<close>

definition settle_alone :: "runtime \<Rightarrow> network \<Rightarrow> call \<times> world \<Rightarrow> call \<times> world" where
  "settle_alone rt net cw =
     (case cw of
        (c, w) \<Rightarrow>
          (case call_waiting c of
             None \<Rightarrow> (c, w)
           | Some rq \<Rightarrow> resume rt (net (butlast (fetches w)) rq) c w))"

text \<open>
  Calls in flight together: a schedule says which call's \<^verbatim>\<open>fetch\<close> settles next, and to
  what.
\<close>

fun run_schedule ::
  "runtime \<Rightarrow> (nat \<times> fetch_result) list \<Rightarrow> call list \<times> world \<Rightarrow> call list \<times> world" where
  "run_schedule rt [] cw = cw"
| "run_schedule rt ((i, fr) # events) (cs, w) =
     (if i < length cs
      then (case resume rt fr (cs ! i) w of
              (c', w') \<Rightarrow> run_schedule rt events (cs[i := c'], w'))
      else run_schedule rt events (cs, w))"

text \<open>Two calls started one after the other, before either is answered.\<close>

definition start_two ::
  "runtime \<Rightarrow> string \<Rightarrow> string \<Rightarrow> world \<Rightarrow> call list \<times> world" where
  "start_two rt e1 e2 w =
     (case start_call rt e1 no_options w of
        (c1, w1) \<Rightarrow> (case start_call rt e2 no_options w1 of (c2, w2) \<Rightarrow> ([c1, c2], w2)))"

text \<open>The refresh calls that are in flight: calls waiting at the refresh.\<close>

definition refreshes_in_flight :: "call list \<Rightarrow> nat" where
  "refreshes_in_flight cs = length (filter (\<lambda>c. call_stage c = AwaitRefresh) cs)"

text \<open>A call that ended with the \<^verbatim>\<open>ApiError\<close> of a failed refresh.\<close>

definition failed_401 :: "stage \<Rightarrow> bool" where
  "failed_401 st = (case st of Settled (Inl (ApiError m code r)) \<Rightarrow> code = 401 \<and> r = None | _ \<Rightarrow> False)"

section \<open>Notions the statements use\<close>

text \<open>
  The reply of the refresh endpoint as the specification describes it (section 6):
  \<^verbatim>\<open>{access_token: string, refresh_token?: string}\<close>, bare or in the \<^verbatim>\<open>data\<close> field of an
  envelope.  \<open>holds_tokens body kvs\<close> says that \<open>kvs\<close> are the fields of the object
  that holds the tokens.
\<close>

definition holds_tokens :: "jsval \<Rightarrow> (string \<times> jsval) list \<Rightarrow> bool" where
  "holds_tokens body kvs =
     (case body of
        JObj outer \<Rightarrow>
          (case map_of outer ''data'' of
             None \<Rightarrow> outer = kvs
           | Some d \<Rightarrow> d = JObj kvs \<or> (d = JNull \<and> outer = kvs))
      | _ \<Rightarrow> False)"

text \<open>
  What a refresh leaves behind, as the specification words it: the stored access token is
  the response's, the stored refresh token is the response's when it gave one (\<open>given\<close> is
  the response's \<^verbatim>\<open>refresh_token\<close> field) and the old one otherwise, and one
  \<^verbatim>\<open>tokenRefreshed\<close> event was added.
\<close>

definition tokens_refreshed :: "string \<Rightarrow> jsval option \<Rightarrow> world \<Rightarrow> world \<Rightarrow> bool" where
  "tokens_refreshed access given w w' =
     (localStorage w' ''access_token'' = Some access
      \<and> localStorage w' ''refresh_token'' =
          (case given of
             Some (JStr r) \<Rightarrow> if r = [] then localStorage w ''refresh_token'' else Some r
           | _ \<Rightarrow> localStorage w ''refresh_token'')
      \<and> dispatched w' = dispatched w @ [''tokenRefreshed''])"

text \<open>
  The refresh token the store holds after a refresh that started from \<open>t\<close>, and the
  request \<^verbatim>\<open>refreshAuth\<close> of \<^verbatim>\<open>AuthProvider\<close> sends from a store that holds \<open>access\<close> and
  \<open>refresh\<close>: the refresh call, with the stored access token as its bearer token.
\<close>

definition stored_refresh :: "string \<Rightarrow> jsval option \<Rightarrow> string" where
  "stored_refresh t given = (case given of Some (JStr r) \<Rightarrow> if r = [] then t else r | _ \<Rightarrow> t)"

definition listener_refresh :: "string \<Rightarrow> string \<Rightarrow> string \<Rightarrow> request" where
  "listener_refresh base access refresh =
     \<lparr> url = base @ ''/api/auth/refresh'',
       req_method = Some ''POST'',
       req_headers = [''Content-Type'' \<mapsto> ''application/json'',
                      ''ngrok-skip-browser-warning'' \<mapsto> ''true'',
                      ''Authorization'' \<mapsto> ''Bearer '' @ access],
       req_body = Some (refresh_body refresh) \<rparr>"

section \<open>How a token carries its payload\<close>

text \<open>
  The issuer of a token is not part of this repository.  A JSON Web Token is
  \<^verbatim>\<open>header.payload.signature\<close>, the payload being the base64url text (RFC 4648, section
  5, without padding) of the bytes of a JSON text.  These definitions say which tokens
  carry which bytes; the statements about \<open>decodeToken\<close> are made against them.
\<close>

definition base64url_char :: "nat \<Rightarrow> char" where
  "base64url_char n =
     (if n < 26 then char_of (65 + n)
      else if n < 52 then char_of (71 + n)
      else if n < 62 then char_of (n - 4)
      else if n = 62 then CHR ''-''
      else CHR ''_'')"

fun bytes_to_sextets :: "nat list \<Rightarrow> nat list" where
  "bytes_to_sextets (a # b # c # rest) =
     (a div 4) # (16 * (a mod 4) + b div 16) # (4 * (b mod 16) + c div 64) # (c mod 64)
       # bytes_to_sextets rest"
| "bytes_to_sextets [a, b] = [a div 4, 16 * (a mod 4) + b div 16, 4 * (b mod 16)]"
| "bytes_to_sextets [a] = [a div 4, 16 * (a mod 4)]"
| "bytes_to_sextets [] = []"

definition base64url :: "nat list \<Rightarrow> string" where
  "base64url bs = map base64url_char (bytes_to_sextets bs)"

text \<open>Well-formed UTF-8, by the automaton \<open>decodeURIComponent\<close> runs on escaped octets.\<close>

definition utf8_bytes_ok :: "nat list \<Rightarrow> bool" where
  "utf8_bytes_ok bs = utf8_items_ok 0 128 191 (map Escaped bs)"

text \<open>
  The characters a segment is decoded from: the letters, the digits and the signs
  \<^verbatim>\<open>+\<close> and \<^verbatim>\<open>/\<close> of base64, and the signs \<^verbatim>\<open>-\<close> and \<^verbatim>\<open>_\<close> of base64url.  A foreign
  character is none of them, nor ASCII white space (tab, line feed, form feed, carriage
  return, space), nor \<^verbatim>\<open>=\<close>.
\<close>

definition alphabet_char :: "char \<Rightarrow> bool" where
  "alphabet_char c =
     (let n = (of_char c :: nat) in
      (65 \<le> n \<and> n \<le> 90) \<or> (97 \<le> n \<and> n \<le> 122) \<or> (48 \<le> n \<and> n \<le> 57)
      \<or> n = 43 \<or> n = 47 \<or> n = 45 \<or> n = 95)"

definition foreign_char :: "char \<Rightarrow> bool" where
  "foreign_char c =
     (let n = (of_char c :: nat) in
      \<not> alphabet_char c \<and> n \<noteq> 9 \<and> n \<noteq> 10 \<and> n \<noteq> 12 \<and> n \<noteq> 13 \<and> n \<noteq> 32 \<and> n \<noteq> 61)"

text \<open>The character of the standard alphabet that the two \<^verbatim>\<open>replace\<close> calls produce.\<close>

definition standard_char :: "nat \<Rightarrow> char" where
  "standard_char n =
     (let c = base64url_char n in
      if c = CHR ''-'' then CHR ''+'' else if c = CHR ''_'' then CHR ''/'' else c)"

section \<open>Concrete instances\<close>

text \<open>
  A runtime for the closed examples: decimal rendering of integers (fractions are cut
  off), conversion of unsigned decimal strings, V8's message for a read through
  \<^verbatim>\<open>null\<close>.  The theorems below hold for every runtime; the examples never render a
  fraction nor convert another kind of string.
\<close>

fun decimal :: "nat \<Rightarrow> string" where
  "decimal n = (if n < 10 then [char_of (48 + n)] else decimal (n div 10) @ [char_of (48 + n mod 10)])"

declare decimal.simps [simp del]

definition sample_runtime :: runtime where
  "sample_runtime =
     \<lparr> number_to_string =
         (\<lambda>x. case x of
                NaN \<Rightarrow> ''NaN''
              | PosInfinity \<Rightarrow> ''Infinity''
              | NegInfinity \<Rightarrow> ''-Infinity''
              | JsFinite r \<Rightarrow> (if r < 0 then ''-'' else []) @ decimal (nat \<bar>\<lfloor>\<bar>r\<bar>\<rfloor>\<bar>)),
       string_to_number =
         (\<lambda>s. case digits_value 0 s of None \<Rightarrow> NaN | Some n \<Rightarrow> JsFinite (of_int n)),
       nullish_read_message =
         (\<lambda>v k. ''Cannot read properties of '' @ (if v = JNull then ''null'' else ''undefined'')
                  @ '' (reading '' @ [CHR 0x27] @ k @ [CHR 0x27] @ '')'') \<rparr>"

text \<open>
  A browsing context with nothing sent yet; \<^verbatim>\<open>AuthProvider\<close> is not mounted in it (the
  API client is used on its own).
\<close>

definition browser :: "(string \<rightharpoonup> string) \<Rightarrow> string \<Rightarrow> world" where
  "browser store path =
     \<lparr> has_window = True, localStorage = store, pathname = path, navigations = [],
       dispatched = [], fetches = [], router_pushes = [], env_api_base = None,
       auth_provider_mounted = False, clock = 0 \<rparr>"

definition reply :: "nat \<Rightarrow> string \<Rightarrow> jsval \<Rightarrow> fetch_result" where
  "reply code txt body = Responded \<lparr> status = code, statusText = txt, json = Inr body \<rparr>"

text \<open>A network that answers the \<open>n\<close>-th request of a run with the \<open>n\<close>-th entry.\<close>

definition scripted :: "fetch_result list \<Rightarrow> network" where
  "scripted rs history rq =
     (if length history < length rs then rs ! length history else Rejected ''Failed to fetch'')"

definition signed_in :: world where
  "signed_in = browser [''access_token'' \<mapsto> ''A1'', ''refresh_token'' \<mapsto> ''R1''] ''/dashboard''"

definition expired_then_refreshed :: network where
  "expired_then_refreshed =
     scripted
       [reply 401 ''Unauthorized'' (JObj [(''detail'', JStr ''Token has expired'')]),
        reply 200 ''OK'' (JObj [(''access_token'', JStr ''A2''), (''refresh_token'', JStr ''R2'')]),
        reply 200 ''OK'' (JObj [(''status'', JStr ''success'')])]"

definition refreshed_in_envelope :: network where
  "refreshed_in_envelope =
     scripted
       [reply 401 ''Unauthorized'' (JObj [(''detail'', JStr ''Token has expired'')]),
        reply 200 ''OK'' (JObj [(''status'', JStr ''success''),
                                (''data'', JObj [(''access_token'', JStr ''A2'')])]),
        reply 204 ''No Content'' JNull]"

definition expired_again_null :: network where
  "expired_again_null =
     scripted
       [reply 401 ''Unauthorized'' (JObj [(''detail'', JStr ''Token has expired'')]),
        reply 200 ''OK'' (JObj [(''access_token'', JStr ''A2''), (''refresh_token'', JStr ''R2'')]),
        reply 401 ''Unauthorized'' JNull]"

text \<open>
  A token whose payload is \<^verbatim>\<open>{"sub":"42","is_admin":true,"exp":1900000000}\<close>.
\<close>

definition admin_payload :: string where
  "admin_payload = ''eyJzdWIiOiI0MiIsImlzX2FkbWluIjp0cnVlLCJleHAiOjE5MDAwMDAwMDB9''"

definition admin_token :: string where
  "admin_token = ''eyJhbGciOiJIUzI1NiIsInR5cCI6IkpXVCJ9.'' @ admin_payload @ ''.c2ln''"

definition admin_payload_bytes :: "nat list" where
  "admin_payload_bytes =
     [123, 34, 115, 117, 98, 34, 58, 34, 52, 50, 34, 44, 34, 105, 115, 95, 97, 100,
      109, 105, 110, 34, 58, 116, 114, 117, 101, 44, 34, 101, 120, 112, 34, 58, 49,
      57, 48, 48, 48, 48, 48, 48, 48, 48, 125]"

text \<open>
  The bytes of \<^verbatim>\<open>{"exp":9007199254740993}\<close>, an expiry that is not a double.
\<close>

definition odd_expiry_bytes :: "nat list" where
  "odd_expiry_bytes =
     [123, 34, 101, 120, 112, 34, 58, 57, 48, 48, 55, 49, 57, 57, 50, 53, 52, 55, 52,
      48, 57, 57, 51, 125]"

text \<open>
  The bytes of \<^verbatim>\<open>{"exp":1700000000.0000000001,"is_admin":true}\<close>, an expiry a fraction
  of a second after 1700000000 s that no double tells from it.
\<close>

definition fraction_expiry_bytes :: "nat list" where
  "fraction_expiry_bytes =
     [123, 34, 101, 120, 112, 34, 58, 49, 55, 48, 48, 48, 48, 48, 48, 48, 48, 46,
      48, 48, 48, 48, 48, 48, 48, 48, 48, 49, 44, 34, 105, 115, 95, 97, 100, 109,
      105, 110, 34, 58, 116, 114, 117, 101, 125]"

text \<open>Two calls in flight from a signed-in browser, and two replies.\<close>

definition two_calls :: "call list \<times> world" where
  "two_calls = start_two sample_runtime ''/api/cards/'' ''/api/players/'' signed_in"

definition token_expired :: fetch_result where
  "token_expired = reply 401 ''Unauthorized'' (JObj [(''detail'', JStr ''Token has expired'')])"

definition refresh_refused :: fetch_result where
  "refresh_refused = reply 401 ''Unauthorized'' (JObj [(''detail'', JStr ''Invalid refresh token'')])"

text \<open>
  The same browsing context with \<^verbatim>\<open>AuthProvider\<close> mounted, and a network for it: the
  third entry answers the request the listener sends.
\<close>

definition signed_in_app :: world where
  "signed_in_app = signed_in\<lparr>auth_provider_mounted := True, clock := 1700000000000\<rparr>"

definition refreshed_while_mounted :: network where
  "refreshed_while_mounted =
     scripted
       [reply 401 ''Unauthorized'' (JObj [(''detail'', JStr ''Token has expired'')]),
        reply 200 ''OK'' (JObj [(''access_token'', JStr ''A2''), (''refresh_token'', JStr ''R2'')]),
        reply 200 ''OK'' (JObj [(''access_token'', JStr ''A3'')]),
        reply 200 ''OK'' (JObj [(''status'', JStr ''success'')])]"

text \<open>A network that answers the refresh call and then fails.\<close>

definition retry_unanswered :: network where
  "retry_unanswered =
     scripted
       [reply 401 ''Unauthorized'' (JObj [(''detail'', JStr ''Token has expired'')]),
        reply 200 ''OK'' (JObj [(''access_token'', JStr ''A2''), (''refresh_token'', JStr ''R2'')])]"

section \<open>Numbers: integers up to \<open>2 ^ 53\<close> are doubles\<close>

lemma round_half_even_of_int: "round_half_even (of_int j) = j"
  by (simp add: round_half_even_def)

lemma binary_exponent_of_int:
  assumes "0 < m"
  shows "binary_exponent (of_int m) = bitlen m - 1"
proof -
  have b: "2 ^ nat (bitlen m - 1) \<le> m" using bitlen_bounds [OF assms] by simp
  have "0 \<le> bitlen m - 1" using assms by (simp add: bitlen_def floorlog_def)
  then have pos: "0 < bitlen m" by simp
  have "(2::rat) ^ nat (bitlen m - 1) = of_int (2 ^ nat (bitlen m - 1))" by simp
  also have "\<dots> \<le> of_int m" using b by (simp only: of_int_le_iff)
  finally have "pow2 (bitlen m - 1) \<le> of_int m" using pos by (simp add: pow2_def)
  moreover have "bitlen 1 = 1" by (simp add: bitlen_def floorlog_def)
  ultimately show ?thesis by (simp add: binary_exponent_def Let_def)
qed

lemma to_double_magnitude:
  assumes "0 < a" and "a \<le> 9007199254740992"
  shows "(let e = max (binary_exponent (of_int a)) (- 1022) in
          \<not> 1023 < e \<and> \<not> (e = 1023 \<and> 9007199254740992 \<le> round_half_even (of_int a / pow2 (e - 52)))
          \<and> of_int (round_half_even (of_int a / pow2 (e - 52))) * pow2 (e - 52) = (of_int a :: rat))"
proof -
  define k where "k = bitlen a - 1"
  have lo: "2 ^ nat k \<le> a" and hi: "a < 2 ^ nat (k + 1)"
    using bitlen_bounds [OF assms(1)] by (simp_all add: k_def)
  have k0: "0 \<le> k" using assms(1) by (simp add: k_def bitlen_def floorlog_def)
  have "(2::int) ^ nat k \<le> 2 ^ 53" using lo assms(2) by simp
  then have "nat k \<le> 53" by (simp only: power_increasing_iff [of 2] one_less_numeral_iff semiring_norm)
  then have k53: "k \<le> 53" by simp
  have e: "max (binary_exponent (of_int a)) (- 1022) = k"
    using binary_exponent_of_int [OF assms(1)] k0 by (simp add: k_def)
  show ?thesis
  proof (cases "k = 53")
    case True
    then have "a = 9007199254740992" using lo assms(2) by simp
    then show ?thesis using True e by (simp add: Let_def pow2_def round_half_even_def)
  next
    case False
    then have k52: "k \<le> 52" using k53 by simp
    have q: "pow2 (k - 52) = 1 / 2 ^ nat (52 - k)"
      using k52 by (cases "k = 52") (simp_all add: pow2_def)
    have "(of_int a :: rat) / pow2 (k - 52) = of_int (a * 2 ^ nat (52 - k))"
      by (simp add: q)
    then have r: "round_half_even (of_int a / pow2 (k - 52)) = a * 2 ^ nat (52 - k)"
      by (simp only: round_half_even_of_int)
    show ?thesis using e k52 by (simp add: Let_def r) (simp add: q)
  qed
qed

lemma to_double_of_int:
  assumes "\<bar>m\<bar> \<le> 9007199254740992"
  shows "to_double (of_int m) = JsFinite (of_int m)"
proof (cases "m = 0")
  case True
  then show ?thesis by (simp add: to_double_def)
next
  case False
  then have "0 < \<bar>m\<bar>" by simp
  from to_double_magnitude [OF this assms]
  have "(let e = max (binary_exponent (of_int \<bar>m\<bar>)) (- 1022) in
          \<not> 1023 < e \<and> \<not> (e = 1023 \<and> 9007199254740992 \<le> round_half_even (of_int \<bar>m\<bar> / pow2 (e - 52)))
          \<and> of_int (round_half_even (of_int \<bar>m\<bar> / pow2 (e - 52))) * pow2 (e - 52) = (of_int \<bar>m\<bar> :: rat))" .
  then show ?thesis using False
    by (cases "m < 0") (simp_all add: to_double_def Let_def)
qed

section \<open>Facts about the pieces of apiRequest\<close>

lemma on_original_not_401:
  "status r \<noteq> 401 \<Longrightarrow> on_original rt (Responded r) w = (Done (finish rt r), w)"
  by (simp add: on_original_def)

lemma localStorage_issue: "localStorage (issue rq w) = localStorage w"
  by (simp add: issue_def)

lemma API_BASE_URL_issue: "API_BASE_URL (issue rq w) = API_BASE_URL w"
  by (simp add: API_BASE_URL_def issue_def)

lemma refresh_request_issue: "refresh_request (issue rq w) t = refresh_request w t"
  by (simp add: refresh_request_def API_BASE_URL_issue)

lemma getItem_issue: "getItem (issue rq w) k = getItem w k"
  by (simp add: getItem_def issue_def)

lemma has_window_issue: "has_window (issue rq w) = has_window w"
  by (simp add: issue_def)

lemma fetches_issue: "fetches (issue rq w) = fetches w @ [rq]"
  by (simp add: issue_def)

lemma getItem_truthy: "truthy (getItem w k) \<longleftrightarrow> (\<exists>t. localStorage w k = Some t \<and> t \<noteq> [])"
  by (simp add: getItem_def split: option.splits)

lemma build_request_override:
  "truthy a \<Longrightarrow> build_request rt u options a w =
     (build_request rt u options JUndefined w0)
       \<lparr>req_headers := (req_headers (build_request rt u options JUndefined w0))
                         (''Authorization'' \<mapsto> ''Bearer '' @ js_to_string rt a)\<rparr>"
  by (simp add: build_request_def js_or_def Let_def)

lemma on_original_401_refresh:
  assumes "has_window w" "status resp = 401" "localStorage w ''refresh_token'' = Some t" "t \<noteq> []"
  shows "on_original rt (Responded resp) w = (Fetching (refresh_request w t), w)"
  using assms by (simp add: on_original_def getItem_def Let_def)

lemma read_tokens_holds:
  assumes "holds_tokens body kvs"
  shows "read_tokens rt body =
           Inr (case map_of kvs ''access_token'' of None \<Rightarrow> JUndefined | Some x \<Rightarrow> x,
                case map_of kvs ''refresh_token'' of None \<Rightarrow> JUndefined | Some x \<Rightarrow> x)"
  using assms
  by (auto simp add: holds_tokens_def read_tokens_def get_prop_def nullish_def member_def js_or_def
        split: jsval.splits option.splits)

lemma on_refresh_success:
  assumes "ok rr" and "json rr = Inr body" and "holds_tokens body kvs"
    and "map_of kvs ''access_token'' = Some (JStr access)" and "access \<noteq> []"
    and "w_stored = store_tokens rt (JStr access)
                      (case map_of kvs ''refresh_token'' of None \<Rightarrow> JUndefined | Some x \<Rightarrow> x) w"
  shows "on_refresh rt u options (Responded rr) w =
           (Fetching (build_request rt u options (JStr access) w_stored), w_stored)"
  using assms by (simp add: on_refresh_def refresh_try_def Let_def read_tokens_holds)

text \<open>
  What the store, the event log and the fetch log are once the tokens are stored and the
  event is dispatched, listener included.
\<close>

lemma store_tokens_typed:
  assumes "has_window w"
    and "localStorage w ''refresh_token'' = Some t" and "t \<noteq> []" and "access \<noteq> []"
    and "given = None \<or> given = Some JNull \<or> (\<exists>r. given = Some (JStr r))"
    and "w_stored = store_tokens rt (JStr access) (case given of None \<Rightarrow> JUndefined | Some x \<Rightarrow> x) w"
  shows "localStorage w_stored ''access_token'' = Some access"
    and "localStorage w_stored ''refresh_token'' = Some (stored_refresh t given)"
    and "dispatched w_stored = dispatched w @ [''tokenRefreshed'']"
    and "fetches w_stored = fetches w @
           (if auth_provider_mounted w \<and> \<not> unexpired rt (clock w) (decodeToken access)
            then [listener_refresh (API_BASE_URL w) access (stored_refresh t given)] else [])"
  using assms
  by (auto simp add: store_tokens_def setItem_def dispatchEvent_def checkAuth_start_def
        refreshAuth_start_def getItem_def removeItem_def issue_def Let_def decodeToken_any_def
        stored_refresh_def listener_refresh_def build_request_def js_or_def refreshToken_options_def
        API_BASE_URL_def)

lemma fetches_on_retry: "fetches (snd (on_retry rt fr w)) = fetches w"
  by (cases fr) (simp_all add: on_retry_def refresh_failed_def redirect_to_login_def purge_def removeItem_def)

lemma apiRequest_refresh_path:
  assumes "has_window w"
    and "localStorage w ''refresh_token'' = Some t" and "t \<noteq> []"
    and "rq_orig = build_request rt (API_BASE_URL w @ endpoint) options JUndefined w"
    and "net (fetches w) rq_orig = Responded resp_orig" and "status resp_orig = 401"
    and "rq_refresh = refresh_request w t"
    and "net (fetches w @ [rq_orig]) rq_refresh = Responded resp_refresh" and "ok resp_refresh"
    and "json resp_refresh = Inr body"
    and "holds_tokens body kvs"
    and "map_of kvs ''access_token'' = Some (JStr access)" and "access \<noteq> []"
    and "rq_retry = rq_orig\<lparr>req_headers := (req_headers rq_orig)(''Authorization'' \<mapsto> ''Bearer '' @ access)\<rparr>"
    and "w_stored = store_tokens rt (JStr access)
                      (case map_of kvs ''refresh_token'' of None \<Rightarrow> JUndefined | Some x \<Rightarrow> x)
                      (issue rq_refresh (issue rq_orig w))"
  shows "on_refresh rt (API_BASE_URL w @ endpoint) options (Responded resp_refresh)
           (issue rq_refresh (issue rq_orig w)) = (Fetching rq_retry, w_stored)"
    and "apiRequest rt net endpoint options w =
           on_retry rt (net (fetches w_stored) rq_retry) (issue rq_retry w_stored)"
proof -
  have 1: "on_original rt (Responded resp_orig) (issue rq_orig w) = (Fetching rq_refresh, issue rq_orig w)"
    using assms(1,2,3,6,7)
    by (simp add: on_original_401_refresh [where t = t] has_window_issue issue_def refresh_request_def API_BASE_URL_def)
  have 3: "build_request rt (API_BASE_URL w @ endpoint) options (JStr access) w_stored = rq_retry"
    using assms(4,13,14) build_request_override [of "JStr access" rt _ options w_stored w] by simp
  show 2: "on_refresh rt (API_BASE_URL w @ endpoint) options (Responded resp_refresh)
           (issue rq_refresh (issue rq_orig w)) = (Fetching rq_retry, w_stored)"
    using on_refresh_success [OF assms(9,10,11,12,13,15)] 3 by simp
  show "apiRequest rt net endpoint options w =
           on_retry rt (net (fetches w_stored) rq_retry) (issue rq_retry w_stored)"
    using assms(5,8) 1 2
    by (simp add: apiRequest_def do_fetch_def Let_def fetches_issue assms(4) [symmetric])
qed

lemma auth_provider_mounted_issue: "auth_provider_mounted (issue rq w) = auth_provider_mounted w"
  by (simp add: issue_def)

lemma clock_issue: "clock (issue rq w) = clock w"
  by (simp add: issue_def)

lemma dispatched_issue: "dispatched (issue rq w) = dispatched w"
  by (simp add: issue_def)

lemma on_retry_responded: "on_retry rt (Responded resp) w = (finish rt resp, w)"
  by (simp add: on_retry_def)

lemma apiRequest_not_401:
  assumes "net (fetches w)
             (build_request rt (API_BASE_URL w @ endpoint) options JUndefined w) = Responded resp"
    and "status resp \<noteq> 401"
  shows "apiRequest rt net endpoint options w =
           (finish rt resp, issue (build_request rt (API_BASE_URL w @ endpoint) options JUndefined w) w)"
  using assms by (simp add: apiRequest_def do_fetch_def on_original_not_401)

lemma get_prop_detail: "\<not> nullish v \<Longrightarrow> get_prop rt v k = Inr (member v k)"
  by (simp add: get_prop_def)

lemma get_prop_nullish: "nullish v \<Longrightarrow> get_prop rt v k = Inl (TypeError (nullish_read_message rt v k))"
  by (simp add: get_prop_def)

lemma finish_failure:
  assumes "\<not> ok resp" and "\<not> nullish (error_body resp)"
  shows "finish rt resp =
           Inl (ApiError
                  (js_to_string rt
                     (if status resp = 403
                      then js_or (member (error_body resp) ''detail'')
                             (JStr ''Access forbidden. This endpoint requires admin privileges.'')
                      else js_or (js_or (member (error_body resp) ''detail'') (JStr (statusText resp)))
                             (JStr ''An error occurred'')))
                  (status resp) (Some resp))"
  using assms by (simp add: finish_def Let_def detail_or_def status_message_def get_prop_detail)

lemma finish_null_body:
  assumes "\<not> ok resp" and "json resp = Inr JNull"
  shows "finish rt resp = Inl (TypeError (nullish_read_message rt JNull ''detail''))"
  using assms
  by (simp add: finish_def Let_def detail_or_def status_message_def error_body_def get_prop_def nullish_def member_def)

lemma on_original_401_no_refresh:
  assumes "has_window w" and "\<not> truthy (getItem w ''refresh_token'')" and "status resp = 401"
  shows "on_original rt (Responded resp) w =
           (Done (case status_message rt (error_body resp) resp of
                    Inl e \<Rightarrow> Inl e
                  | Inr m \<Rightarrow> Inl (ApiError (js_to_string rt m) (status resp) (Some resp))),
            redirect_to_login (removeItem ''access_token'' w))"
  using assms by (simp add: on_original_def Let_def split: sum.splits)

lemma status_message_not_nullish:
  "\<not> nullish errorData \<Longrightarrow>
     status_message rt errorData resp =
       Inr (js_or (js_or (member errorData ''detail'') (JStr (statusText resp))) (JStr ''An error occurred''))"
  by (simp add: status_message_def detail_or_def get_prop_detail)

lemma localStorage_redirect: "localStorage (redirect_to_login w) = localStorage w"
  by (simp add: redirect_to_login_def)

lemma fetches_redirect: "fetches (redirect_to_login w) = fetches w"
  by (simp add: redirect_to_login_def)

section \<open>Requests that never meet a 401\<close>

text \<open>
  C10.  When the first response of a call is not a 401 (a 2xx, a 204 or any other
  failure status), the call leaves \<^verbatim>\<open>localStorage\<close> as it found it: no key is written
  or removed, \<^verbatim>\<open>access_token\<close> and \<^verbatim>\<open>refresh_token\<close> included.
\<close>

theorem apiRequest_not_401_keeps_storage:
  assumes "net (fetches w)
             (build_request rt (API_BASE_URL w @ endpoint) options JUndefined w) = Responded r"
    and "status r \<noteq> 401"
  shows "localStorage (snd (apiRequest rt net endpoint options w)) = localStorage w"
  using assms
  by (simp add: apiRequest_def do_fetch_def on_original_not_401 localStorage_issue)

theorem apiRequest_not_401_keeps_storage_witness:
  "fst (apiRequest sample_runtime (scripted [reply 200 ''OK'' (JObj [(''status'', JStr ''success'')])])
          ''/api/cards/'' no_options
          (browser [''access_token'' \<mapsto> ''A1'', ''refresh_token'' \<mapsto> ''R1''] ''/dashboard''))
     = Inr (JObj [(''status'', JStr ''success'')])
   \<and> localStorage (snd (apiRequest sample_runtime
          (scripted [reply 200 ''OK'' (JObj [(''status'', JStr ''success'')])])
          ''/api/cards/'' no_options
          (browser [''access_token'' \<mapsto> ''A1'', ''refresh_token'' \<mapsto> ''R1''] ''/dashboard'')))
     = [''access_token'' \<mapsto> ''A1'', ''refresh_token'' \<mapsto> ''R1'']"
proof -
  let ?net = "scripted [reply 200 ''OK'' (JObj [(''status'', JStr ''success'')])]"
  let ?w = "browser [''access_token'' \<mapsto> ''A1'', ''refresh_token'' \<mapsto> ''R1''] ''/dashboard''"
  let ?r = "\<lparr> status = 200, statusText = ''OK'', json = Inr (JObj [(''status'', JStr ''success'')]) \<rparr>"
  have first: "?net (fetches ?w)
      (build_request sample_runtime (API_BASE_URL ?w @ ''/api/cards/'') no_options JUndefined ?w)
      = Responded ?r"
    by (simp add: scripted_def reply_def browser_def)
  have "status ?r \<noteq> 401" by simp
  with first apiRequest_not_401_keeps_storage
    [where net = "?net" and w = "?w" and rt = sample_runtime and r = "?r"
       and endpoint = "''/api/cards/''" and options = no_options]
  have "localStorage (snd (apiRequest sample_runtime ?net ''/api/cards/'' no_options ?w))
          = localStorage ?w" by blast
  moreover have "fst (apiRequest sample_runtime ?net ''/api/cards/'' no_options ?w)
          = Inr (JObj [(''status'', JStr ''success'')])"
    using first by (simp add: apiRequest_def do_fetch_def on_original_not_401 finish_def ok_def)
  ultimately show ?thesis by (simp add: browser_def)
qed

section \<open>The refresh protocol\<close>

text \<open>
  C1, where it fails.  With \<^verbatim>\<open>AuthProvider\<close> mounted and a refreshed access token that
  does not decode to unexpired claims, two refresh calls are sent while the call runs: the
  one of \<^verbatim>\<open>apiRequest\<close> and the one the \<^verbatim>\<open>tokenRefreshed\<close> listener starts.  And when the
  retry's \<^verbatim>\<open>fetch\<close> is rejected, the caller does not observe that rejection as a call
  with no 401 would: the refreshed tokens are removed and the call throws an \<^verbatim>\<open>ApiError\<close>
  of status 401 that reports a failed refresh.
\<close>

theorem refresh_then_retry_counterexample:
  "map url (fetches (snd (apiRequest sample_runtime refreshed_while_mounted ''/api/cards/'' no_options
                            signed_in_app)))
     = [''http://localhost:8080/api/cards/'', ''http://localhost:8080/api/auth/refresh'',
        ''http://localhost:8080/api/auth/refresh'', ''http://localhost:8080/api/cards/'']
   \<and> fst (apiRequest sample_runtime retry_unanswered ''/api/cards/'' no_options signed_in)
     = Inl (ApiError ''Failed to refresh token: Failed to fetch'' 401 None)
   \<and> localStorage (snd (apiRequest sample_runtime retry_unanswered ''/api/cards/'' no_options signed_in))
     = Map.empty"
  by (simp add: apiRequest_def do_fetch_def on_original_def on_refresh_def refresh_try_def
        on_retry_def refresh_failed_def purge_def redirect_to_login_def removeItem_def
        finish_def read_tokens_def get_prop_def nullish_def member_def js_or_def getItem_def issue_def
        store_tokens_def setItem_def dispatchEvent_def checkAuth_start_def refreshAuth_start_def
        refreshToken_options_def decodeToken_any_def decodeToken_def unexpired_def
        build_request_def refresh_request_def API_BASE_URL_def
        error_body_def detail_or_def status_message_def ok_def Let_def
        refreshed_while_mounted_def retry_unanswered_def scripted_def reply_def
        signed_in_app_def signed_in_def browser_def no_options_def)

text \<open>
  C1.  A call whose first response is a 401, made with a window and a stored refresh token,
  and whose refresh call is answered with a 2xx whose body holds an access token (bare or
  in an envelope's \<^verbatim>\<open>data\<close> field), sends the original request, one refresh call, and
  the original request again with the new access token as its bearer token; between the
  last two the \<^verbatim>\<open>tokenRefreshed\<close> listener of a mounted \<^verbatim>\<open>AuthProvider\<close> sends one refresh
  call of its own when the new token does not decode to unexpired claims, and nothing
  otherwise (what that call of the listener does once it is answered is not part of
  this call).  When the retry is answered, the call ends as the code after the 401
  handling ends on that response (\<open>finish\<close>), which is how a call ends whose first
  response is not a 401.
\<close>

theorem refresh_then_retry:
  assumes "has_window w"
    and "localStorage w ''refresh_token'' = Some t" and "t \<noteq> []"
    and "rq_orig = build_request rt (API_BASE_URL w @ endpoint) options JUndefined w"
    and "net (fetches w) rq_orig = Responded resp_orig" and "status resp_orig = 401"
    and "rq_refresh = refresh_request w t"
    and "net (fetches w @ [rq_orig]) rq_refresh = Responded resp_refresh" and "ok resp_refresh"
    and "json resp_refresh = Inr body"
    and "holds_tokens body kvs"
    and "map_of kvs ''access_token'' = Some (JStr access)" and "access \<noteq> []"
    and "map_of kvs ''refresh_token'' = None \<or> map_of kvs ''refresh_token'' = Some JNull
         \<or> (\<exists>r. map_of kvs ''refresh_token'' = Some (JStr r))"
    and "rq_retry = rq_orig\<lparr>req_headers :=
                 (req_headers rq_orig)(''Authorization'' \<mapsto> ''Bearer '' @ access)\<rparr>"
    and "by_listener =
           (if auth_provider_mounted w \<and> \<not> unexpired rt (clock w) (decodeToken access)
            then [listener_refresh (API_BASE_URL w) access
                    (stored_refresh t (map_of kvs ''refresh_token''))]
            else [])"
  shows "fetches (snd (apiRequest rt net endpoint options w))
           = fetches w @ [rq_orig, rq_refresh] @ by_listener @ [rq_retry]
       \<and> (\<forall>resp_retry.
             net (fetches w @ [rq_orig, rq_refresh] @ by_listener) rq_retry = Responded resp_retry \<longrightarrow>
             fst (apiRequest rt net endpoint options w) = finish rt resp_retry)"
proof -
  define w_stored where
    "w_stored = store_tokens rt (JStr access)
                  (case map_of kvs ''refresh_token'' of None \<Rightarrow> JUndefined | Some x \<Rightarrow> x)
                  (issue rq_refresh (issue rq_orig w))"
  have path: "apiRequest rt net endpoint options w =
                on_retry rt (net (fetches w_stored) rq_retry) (issue rq_retry w_stored)"
    using assms(1-13,15) w_stored_def by (rule apiRequest_refresh_path(2))
  have "fetches w_stored = fetches (issue rq_refresh (issue rq_orig w)) @
           (if auth_provider_mounted (issue rq_refresh (issue rq_orig w))
               \<and> \<not> unexpired rt (clock (issue rq_refresh (issue rq_orig w))) (decodeToken access)
            then [listener_refresh (API_BASE_URL (issue rq_refresh (issue rq_orig w))) access
                    (stored_refresh t (map_of kvs ''refresh_token''))]
            else [])"
    using assms(1,2,3,13,14) w_stored_def
    by (intro store_tokens_typed(4)) (simp_all add: has_window_issue localStorage_issue)
  then have sent: "fetches w_stored = fetches w @ [rq_orig, rq_refresh] @ by_listener"
    by (simp add: assms(16) fetches_issue auth_provider_mounted_issue clock_issue API_BASE_URL_issue)
  have log: "fetches (snd (apiRequest rt net endpoint options w))
               = fetches w @ [rq_orig, rq_refresh] @ by_listener @ [rq_retry]"
    by (simp add: path fetches_on_retry fetches_issue sent)
  have "fst (apiRequest rt net endpoint options w) = finish rt resp_retry"
    if "net (fetches w @ [rq_orig, rq_refresh] @ by_listener) rq_retry = Responded resp_retry"
    for resp_retry
    using that by (simp add: path sent on_retry_responded)
  with log show ?thesis by blast
qed

theorem refresh_then_retry_witness:
  "map url (fetches (snd (apiRequest sample_runtime expired_then_refreshed ''/api/cards/'' no_options signed_in)))
     = [''http://localhost:8080/api/cards/'', ''http://localhost:8080/api/auth/refresh'',
        ''http://localhost:8080/api/cards/'']
   \<and> map (\<lambda>q. req_headers q ''Authorization'')
         (fetches (snd (apiRequest sample_runtime expired_then_refreshed ''/api/cards/'' no_options signed_in)))
     = [Some ''Bearer A1'', None, Some ''Bearer A2'']
   \<and> fst (apiRequest sample_runtime expired_then_refreshed ''/api/cards/'' no_options signed_in)
     = Inr (JObj [(''status'', JStr ''success'')])"
proof -
  let ?rq_orig = "build_request sample_runtime (API_BASE_URL signed_in @ ''/api/cards/'') no_options JUndefined signed_in"
  let ?rq_refresh = "refresh_request signed_in ''R1''"
  let ?rq_retry = "?rq_orig\<lparr>req_headers := (req_headers ?rq_orig)(''Authorization'' \<mapsto> ''Bearer '' @ ''A2'')\<rparr>"
  let ?resp_orig = "\<lparr>status = 401, statusText = ''Unauthorized'', json = Inr (JObj [(''detail'', JStr ''Token has expired'')])\<rparr>"
  let ?kvs = "[(''access_token'', JStr ''A2''), (''refresh_token'', JStr ''R2'')]"
  let ?resp_refresh = "\<lparr>status = 200, statusText = ''OK'', json = Inr (JObj ?kvs)\<rparr>"
  let ?resp_retry = "\<lparr>status = 200, statusText = ''OK'', json = Inr (JObj [(''status'', JStr ''success'')])\<rparr>"
  have h1: "has_window signed_in" by (simp add: signed_in_def browser_def)
  have h2: "localStorage signed_in ''refresh_token'' = Some ''R1''" by (simp add: signed_in_def browser_def)
  have h3: "''R1'' \<noteq> []" by simp
  have f0: "fetches signed_in = []" by (simp add: signed_in_def browser_def)
  have h5: "expired_then_refreshed (fetches signed_in) ?rq_orig = Responded ?resp_orig"
    by (simp add: f0 expired_then_refreshed_def scripted_def reply_def)
  have h6: "status ?resp_orig = 401" by simp
  have h8: "expired_then_refreshed (fetches signed_in @ [?rq_orig]) ?rq_refresh = Responded ?resp_refresh"
    by (simp add: f0 expired_then_refreshed_def scripted_def reply_def)
  have h9: "ok ?resp_refresh" by (simp add: ok_def)
  have h10: "json ?resp_refresh = Inr (JObj ?kvs)" by simp
  have h11: "holds_tokens (JObj ?kvs) ?kvs" by (simp add: holds_tokens_def)
  have h12: "map_of ?kvs ''access_token'' = Some (JStr ''A2'')" by simp
  have h13: "''A2'' \<noteq> []" by simp
  have h14: "map_of ?kvs ''refresh_token'' = None \<or> map_of ?kvs ''refresh_token'' = Some JNull
         \<or> (\<exists>r. map_of ?kvs ''refresh_token'' = Some (JStr r))" by simp
  have h16: "[] = (if auth_provider_mounted signed_in
                      \<and> \<not> unexpired sample_runtime (clock signed_in) (decodeToken ''A2'')
                   then [listener_refresh (API_BASE_URL signed_in) ''A2''
                           (stored_refresh ''R1'' (map_of ?kvs ''refresh_token''))]
                   else [])"
    by (simp add: signed_in_def browser_def)
  have answered: "expired_then_refreshed (fetches signed_in @ [?rq_orig, ?rq_refresh] @ []) ?rq_retry
                    = Responded ?resp_retry"
    by (simp add: f0 expired_then_refreshed_def scripted_def reply_def)
  from refresh_then_retry
    [where w = signed_in and t = "''R1''" and rt = sample_runtime and endpoint = "''/api/cards/''"
       and options = no_options and net = expired_then_refreshed and resp_orig = "?resp_orig"
       and resp_refresh = "?resp_refresh" and body = "JObj ?kvs" and kvs = "?kvs" and access = "''A2''"
       and rq_orig = "?rq_orig" and rq_refresh = "?rq_refresh" and rq_retry = "?rq_retry"
       and by_listener = "[]",
     OF h1 h2 h3 refl h5 h6 refl h8 h9 h10 h11 h12 h13 h14 refl h16]
  have log: "fetches (snd (apiRequest sample_runtime expired_then_refreshed ''/api/cards/'' no_options signed_in))
               = fetches signed_in @ [?rq_orig, ?rq_refresh] @ [] @ [?rq_retry]"
    and res: "\<forall>resp_retry. expired_then_refreshed (fetches signed_in @ [?rq_orig, ?rq_refresh] @ []) ?rq_retry = Responded resp_retry \<longrightarrow>
              fst (apiRequest sample_runtime expired_then_refreshed ''/api/cards/'' no_options signed_in) = finish sample_runtime resp_retry"
    by blast+
  from res answered have "fst (apiRequest sample_runtime expired_then_refreshed ''/api/cards/'' no_options signed_in)
      = finish sample_runtime ?resp_retry" by blast
  then have 3: "fst (apiRequest sample_runtime expired_then_refreshed ''/api/cards/'' no_options signed_in)
      = Inr (JObj [(''status'', JStr ''success'')])"
    by (simp add: finish_def ok_def)
  have 1: "map url (fetches signed_in @ [?rq_orig, ?rq_refresh] @ [] @ [?rq_retry])
     = [''http://localhost:8080/api/cards/'', ''http://localhost:8080/api/auth/refresh'',
        ''http://localhost:8080/api/cards/'']"
    by (simp add: f0 build_request_def refresh_request_def API_BASE_URL_def signed_in_def browser_def Let_def)
  have 2: "map (\<lambda>q. req_headers q ''Authorization'') (fetches signed_in @ [?rq_orig, ?rq_refresh] @ [] @ [?rq_retry])
     = [Some ''Bearer A1'', None, Some ''Bearer A2'']"
    by (simp add: f0 build_request_def refresh_request_def signed_in_def browser_def getItem_def js_or_def no_options_def Let_def)
  from 1 2 3 log show ?thesis by simp
qed

text \<open>
  The retry stands inside the \<^verbatim>\<open>try\<close> of the refresh, so a retry whose \<^verbatim>\<open>fetch\<close> is rejected
  ends in the \<^verbatim>\<open>catch\<close> written for a failed refresh: the tokens just stored are purged,
  the login redirect is made and the error reports a failed refresh.
\<close>

lemma rejected_retry_discards_refresh:
  assumes "has_window w"
    and "localStorage w ''refresh_token'' = Some t" and "t \<noteq> []"
    and "rq_orig = build_request rt (API_BASE_URL w @ endpoint) options JUndefined w"
    and "net (fetches w) rq_orig = Responded resp_orig" and "status resp_orig = 401"
    and "rq_refresh = refresh_request w t"
    and "net (fetches w @ [rq_orig]) rq_refresh = Responded resp_refresh" and "ok resp_refresh"
    and "json resp_refresh = Inr body"
    and "holds_tokens body kvs"
    and "map_of kvs ''access_token'' = Some (JStr access)" and "access \<noteq> []"
    and "rq_retry = rq_orig\<lparr>req_headers :=
                 (req_headers rq_orig)(''Authorization'' \<mapsto> ''Bearer '' @ access)\<rparr>"
    and "on_refresh rt (API_BASE_URL w @ endpoint) options (Responded resp_refresh)
           (issue rq_refresh (issue rq_orig w)) = (Fetching rq_retry, w_sent)"
    and "net (fetches w_sent) rq_retry = Rejected m"
  shows "fst (apiRequest rt net endpoint options w)
           = Inl (ApiError (''Failed to refresh token: '' @ m) 401 None)"
    and "localStorage (snd (apiRequest rt net endpoint options w)) ''access_token'' = None"
    and "localStorage (snd (apiRequest rt net endpoint options w)) ''refresh_token'' = None"
proof -
  define w_stored where
    "w_stored = store_tokens rt (JStr access)
                  (case map_of kvs ''refresh_token'' of None \<Rightarrow> JUndefined | Some x \<Rightarrow> x)
                  (issue rq_refresh (issue rq_orig w))"
  have "on_refresh rt (API_BASE_URL w @ endpoint) options (Responded resp_refresh)
           (issue rq_refresh (issue rq_orig w)) = (Fetching rq_retry, w_stored)"
    using assms(1-14) w_stored_def by (rule apiRequest_refresh_path(1))
  with assms(15) have same: "w_sent = w_stored" by simp
  have path: "apiRequest rt net endpoint options w =
                on_retry rt (net (fetches w_stored) rq_retry) (issue rq_retry w_stored)"
    using assms(1-14) w_stored_def by (rule apiRequest_refresh_path(2))
  show "fst (apiRequest rt net endpoint options w)
           = Inl (ApiError (''Failed to refresh token: '' @ m) 401 None)"
    using assms(16) by (simp add: path same on_retry_def refresh_failed_def)
  show "localStorage (snd (apiRequest rt net endpoint options w)) ''access_token'' = None"
    using assms(16)
    by (simp add: path same on_retry_def refresh_failed_def localStorage_redirect purge_def removeItem_def)
  show "localStorage (snd (apiRequest rt net endpoint options w)) ''refresh_token'' = None"
    using assms(16)
    by (simp add: path same on_retry_def refresh_failed_def localStorage_redirect purge_def removeItem_def)
qed

lemma tokens_refreshed_issue_right: "tokens_refreshed a g w (issue rq w') = tokens_refreshed a g w w'"
  by (simp add: tokens_refreshed_def localStorage_issue dispatched_issue)

lemma tokens_refreshed_stored:
  assumes "localStorage w ''refresh_token'' = Some t"
    and "localStorage w' ''access_token'' = Some access"
    and "localStorage w' ''refresh_token'' = Some (stored_refresh t given)"
    and "dispatched w' = dispatched w @ [''tokenRefreshed'']"
  shows "tokens_refreshed access given w w'"
  using assms
  by (simp add: tokens_refreshed_def stored_refresh_def split: option.splits jsval.splits)

text \<open>
  C4.  After a successful refresh inside \<^verbatim>\<open>apiRequest\<close> (in the browsing context in which
  the retry is sent, the listener of \<^verbatim>\<open>tokenRefreshed\<close> having run, and again when the
  call ends on the retry's response, the listener having started no call of its own) the
  stored access token is the one the refresh response holds, the stored refresh token is
  the response's if it holds one and is unchanged otherwise, and exactly one
  \<^verbatim>\<open>tokenRefreshed\<close> event has been dispatched.
\<close>

theorem successful_refresh_stores_tokens:
  assumes "has_window w"
    and "localStorage w ''refresh_token'' = Some t" and "t \<noteq> []"
    and "rq_orig = build_request rt (API_BASE_URL w @ endpoint) options JUndefined w"
    and "net (fetches w) rq_orig = Responded resp_orig" and "status resp_orig = 401"
    and "rq_refresh = refresh_request w t"
    and "net (fetches w @ [rq_orig]) rq_refresh = Responded resp_refresh"
    and "ok resp_refresh" and "json resp_refresh = Inr body"
    and "holds_tokens body kvs"
    and "map_of kvs ''access_token'' = Some (JStr access)" and "access \<noteq> []"
    and "map_of kvs ''refresh_token'' = None \<or> map_of kvs ''refresh_token'' = Some JNull
         \<or> (\<exists>r. map_of kvs ''refresh_token'' = Some (JStr r))"
    and "rq_retry = rq_orig\<lparr>req_headers :=
                 (req_headers rq_orig)(''Authorization'' \<mapsto> ''Bearer '' @ access)\<rparr>"
    and "w_sent = snd (on_refresh rt (API_BASE_URL w @ endpoint) options (Responded resp_refresh)
                         (issue rq_refresh (issue rq_orig w)))"
  shows "tokens_refreshed access (map_of kvs ''refresh_token'') w w_sent
       \<and> (\<forall>resp_retry.
             fetches w_sent = fetches w @ [rq_orig, rq_refresh]
             \<and> net (fetches w_sent) rq_retry = Responded resp_retry \<longrightarrow>
             tokens_refreshed access (map_of kvs ''refresh_token'') w
               (snd (apiRequest rt net endpoint options w)))"
proof -
  define w_stored where
    "w_stored = store_tokens rt (JStr access)
                  (case map_of kvs ''refresh_token'' of None \<Rightarrow> JUndefined | Some x \<Rightarrow> x)
                  (issue rq_refresh (issue rq_orig w))"
  have seg: "on_refresh rt (API_BASE_URL w @ endpoint) options (Responded resp_refresh)
           (issue rq_refresh (issue rq_orig w)) = (Fetching rq_retry, w_stored)"
    using assms(1-13,15) w_stored_def by (rule apiRequest_refresh_path(1))
  then have same: "w_sent = w_stored" by (simp add: assms(16))
  have path: "apiRequest rt net endpoint options w =
                on_retry rt (net (fetches w_stored) rq_retry) (issue rq_retry w_stored)"
    using assms(1-13,15) w_stored_def by (rule apiRequest_refresh_path(2))
  have a: "localStorage w_stored ''access_token'' = Some access"
    using assms(1,2,3,13,14) w_stored_def
    by (intro store_tokens_typed(1) [where given = "map_of kvs ''refresh_token''"])
       (simp_all add: has_window_issue localStorage_issue)
  have r: "localStorage w_stored ''refresh_token'' = Some (stored_refresh t (map_of kvs ''refresh_token''))"
    using assms(1,2,3,13,14) w_stored_def
    by (intro store_tokens_typed(2)) (simp_all add: has_window_issue localStorage_issue)
  have "dispatched w_stored = dispatched (issue rq_refresh (issue rq_orig w)) @ [''tokenRefreshed'']"
    using assms(1,2,3,13,14) w_stored_def
    by (intro store_tokens_typed(3) [where given = "map_of kvs ''refresh_token''"])
       (simp_all add: has_window_issue localStorage_issue)
  then have d: "dispatched w_stored = dispatched w @ [''tokenRefreshed'']"
    by (simp add: dispatched_issue)
  have stored: "tokens_refreshed access (map_of kvs ''refresh_token'') w w_stored"
    using assms(2) a r d by (rule tokens_refreshed_stored)
  have "tokens_refreshed access (map_of kvs ''refresh_token'') w (snd (apiRequest rt net endpoint options w))"
    if "net (fetches w_sent) rq_retry = Responded resp_retry" for resp_retry
    using that stored by (simp add: path same on_retry_responded tokens_refreshed_issue_right)
  with stored same show ?thesis by blast
qed

theorem successful_refresh_stores_tokens_witness:
  "localStorage (snd (apiRequest sample_runtime refreshed_in_envelope ''/api/cards/7'' no_options signed_in))
      ''access_token'' = Some ''A2''
   \<and> localStorage (snd (apiRequest sample_runtime refreshed_in_envelope ''/api/cards/7'' no_options signed_in))
      ''refresh_token'' = Some ''R1''
   \<and> dispatched (snd (apiRequest sample_runtime refreshed_in_envelope ''/api/cards/7'' no_options signed_in))
      = [''tokenRefreshed'']"
proof -
  let ?rq_orig = "build_request sample_runtime (API_BASE_URL signed_in @ ''/api/cards/7'') no_options JUndefined signed_in"
  let ?rq_refresh = "refresh_request signed_in ''R1''"
  let ?rq_retry = "?rq_orig\<lparr>req_headers := (req_headers ?rq_orig)(''Authorization'' \<mapsto> ''Bearer '' @ ''A2'')\<rparr>"
  let ?resp_orig = "\<lparr>status = 401, statusText = ''Unauthorized'', json = Inr (JObj [(''detail'', JStr ''Token has expired'')])\<rparr>"
  let ?kvs = "[(''access_token'', JStr ''A2'')]"
  let ?body = "JObj [(''status'', JStr ''success''), (''data'', JObj ?kvs)]"
  let ?resp_refresh = "\<lparr>status = 200, statusText = ''OK'', json = Inr ?body\<rparr>"
  let ?resp_retry = "\<lparr>status = 204, statusText = ''No Content'', json = Inr JNull\<rparr>"
  let ?w_sent = "snd (on_refresh sample_runtime (API_BASE_URL signed_in @ ''/api/cards/7'') no_options
                        (Responded ?resp_refresh) (issue ?rq_refresh (issue ?rq_orig signed_in)))"
  let ?final = "snd (apiRequest sample_runtime refreshed_in_envelope ''/api/cards/7'' no_options signed_in)"
  have h1: "has_window signed_in" by (simp add: signed_in_def browser_def)
  have h2: "localStorage signed_in ''refresh_token'' = Some ''R1''" by (simp add: signed_in_def browser_def)
  have h3: "''R1'' \<noteq> []" by simp
  have f0: "fetches signed_in = []" by (simp add: signed_in_def browser_def)
  have h5: "refreshed_in_envelope (fetches signed_in) ?rq_orig = Responded ?resp_orig"
    by (simp add: f0 refreshed_in_envelope_def scripted_def reply_def)
  have h6: "status ?resp_orig = 401" by simp
  have h8: "refreshed_in_envelope (fetches signed_in @ [?rq_orig]) ?rq_refresh = Responded ?resp_refresh"
    by (simp add: f0 refreshed_in_envelope_def scripted_def reply_def)
  have h9: "ok ?resp_refresh" by (simp add: ok_def)
  have h10: "json ?resp_refresh = Inr ?body" by simp
  have h11: "holds_tokens ?body ?kvs" by (simp add: holds_tokens_def)
  have h12: "map_of ?kvs ''access_token'' = Some (JStr ''A2'')" by simp
  have h13: "''A2'' \<noteq> []" by simp
  have h14: "map_of ?kvs ''refresh_token'' = None \<or> map_of ?kvs ''refresh_token'' = Some JNull
         \<or> (\<exists>r. map_of ?kvs ''refresh_token'' = Some (JStr r))" by simp
  have sent: "fetches ?w_sent = [?rq_orig, ?rq_refresh]"
    by (simp add: on_refresh_def refresh_try_def read_tokens_def get_prop_def nullish_def member_def
          js_or_def ok_def store_tokens_def setItem_def dispatchEvent_def issue_def Let_def
          signed_in_def browser_def)
  have answered: "refreshed_in_envelope (fetches ?w_sent) ?rq_retry = Responded ?resp_retry"
    by (simp only: sent) (simp add: refreshed_in_envelope_def scripted_def reply_def)
  from successful_refresh_stores_tokens
    [where w = signed_in and t = "''R1''" and rt = sample_runtime and endpoint = "''/api/cards/7''"
       and options = no_options and net = refreshed_in_envelope and resp_orig = "?resp_orig"
       and resp_refresh = "?resp_refresh" and body = "?body" and kvs = "?kvs" and access = "''A2''"
       and rq_orig = "?rq_orig" and rq_refresh = "?rq_refresh" and rq_retry = "?rq_retry"
       and w_sent = "?w_sent",
     OF h1 h2 h3 refl h5 h6 refl h8 h9 h10 h11 h12 h13 h14 refl refl]
  have "\<forall>resp_retry. fetches ?w_sent = fetches signed_in @ [?rq_orig, ?rq_refresh]
              \<and> refreshed_in_envelope (fetches ?w_sent) ?rq_retry = Responded resp_retry \<longrightarrow>
              tokens_refreshed ''A2'' (map_of ?kvs ''refresh_token'') signed_in ?final"
    by blast
  moreover have "fetches ?w_sent = fetches signed_in @ [?rq_orig, ?rq_refresh]"
    by (simp only: sent f0 append_Nil)
  ultimately have "tokens_refreshed ''A2'' (map_of ?kvs ''refresh_token'') signed_in ?final"
    using answered by blast
  then show ?thesis
    by (simp add: tokens_refreshed_def signed_in_def browser_def)
qed

section \<open>Terminal failures\<close>

lemma second_401_is_terminal:
  assumes "has_window w"
    and "localStorage w ''refresh_token'' = Some t" and "t \<noteq> []"
    and "rq_orig = build_request rt (API_BASE_URL w @ endpoint) options JUndefined w"
    and "net (fetches w) rq_orig = Responded resp_orig" and "status resp_orig = 401"
    and "rq_refresh = refresh_request w t"
    and "net (fetches w @ [rq_orig]) rq_refresh = Responded resp_refresh"
    and "ok resp_refresh" and "json resp_refresh = Inr body"
    and "holds_tokens body kvs"
    and "map_of kvs ''access_token'' = Some (JStr access)" and "access \<noteq> []"
    and "map_of kvs ''refresh_token'' = None \<or> map_of kvs ''refresh_token'' = Some JNull
         \<or> (\<exists>r. map_of kvs ''refresh_token'' = Some (JStr r))"
    and "rq_retry = rq_orig\<lparr>req_headers :=
                 (req_headers rq_orig)(''Authorization'' \<mapsto> ''Bearer '' @ access)\<rparr>"
    and "by_listener =
           (if auth_provider_mounted w \<and> \<not> unexpired rt (clock w) (decodeToken access)
            then [listener_refresh (API_BASE_URL w) access
                    (stored_refresh t (map_of kvs ''refresh_token''))]
            else [])"
    and "net (fetches w @ [rq_orig, rq_refresh] @ by_listener) rq_retry = Responded resp_retry"
    and "status resp_retry = 401"
    and "\<not> nullish (error_body resp_retry)"
  shows "fetches (snd (apiRequest rt net endpoint options w))
           = fetches w @ [rq_orig, rq_refresh] @ by_listener @ [rq_retry]
       \<and> fst (apiRequest rt net endpoint options w) =
           Inl (ApiError
                  (js_to_string rt
                     (js_or (js_or (member (error_body resp_retry) ''detail'') (JStr (statusText resp_retry)))
                        (JStr ''An error occurred'')))
                  401 (Some resp_retry))"
proof -
  define w_stored where
    "w_stored = store_tokens rt (JStr access)
                  (case map_of kvs ''refresh_token'' of None \<Rightarrow> JUndefined | Some x \<Rightarrow> x)
                  (issue rq_refresh (issue rq_orig w))"
  have path: "apiRequest rt net endpoint options w =
                on_retry rt (net (fetches w_stored) rq_retry) (issue rq_retry w_stored)"
    using assms(1-13,15) w_stored_def by (rule apiRequest_refresh_path(2))
  have "fetches w_stored = fetches (issue rq_refresh (issue rq_orig w)) @
           (if auth_provider_mounted (issue rq_refresh (issue rq_orig w))
               \<and> \<not> unexpired rt (clock (issue rq_refresh (issue rq_orig w))) (decodeToken access)
            then [listener_refresh (API_BASE_URL (issue rq_refresh (issue rq_orig w))) access
                    (stored_refresh t (map_of kvs ''refresh_token''))]
            else [])"
    using assms(1,2,3,13,14) w_stored_def
    by (intro store_tokens_typed(4)) (simp_all add: has_window_issue localStorage_issue)
  then have sent: "fetches w_stored = fetches w @ [rq_orig, rq_refresh] @ by_listener"
    by (simp add: assms(16) fetches_issue auth_provider_mounted_issue clock_issue API_BASE_URL_issue)
  have "\<not> ok resp_retry" using assms(18) by (simp add: ok_def)
  from finish_failure [OF this assms(19)] assms(17,18)
  show ?thesis
    by (simp add: path sent on_retry_responded fetches_issue)
qed

text \<open>
  C2.  The refresh protocol runs at most once per call: when the retry is answered with a
  401 again, no further request is sent and the call throws an \<^verbatim>\<open>ApiError\<close> of status
  401, as long as the body of that response is not the JSON value \<^verbatim>\<open>null\<close>
  (\<open>second_401_is_terminal\<close>).  On a
  second 401 whose body is \<^verbatim>\<open>null\<close> the three requests are sent and the call throws
  the engine's \<^verbatim>\<open>TypeError\<close> for \<^verbatim>\<open>errorData.detail\<close>, an error that carries no status.
\<close>

theorem retried_401_null_body:
  "fst (apiRequest rt expired_again_null ''/api/cards/'' no_options signed_in)
     = Inl (TypeError (nullish_read_message rt JNull ''detail''))
   \<and> length (fetches (snd (apiRequest rt expired_again_null ''/api/cards/'' no_options signed_in))) = 3"
  by (simp add: apiRequest_def do_fetch_def on_original_def on_refresh_def refresh_try_def
        on_retry_def finish_def read_tokens_def get_prop_def nullish_def member_def js_or_def getItem_def issue_def
        store_tokens_def setItem_def dispatchEvent_def build_request_def refresh_request_def
        error_body_def detail_or_def status_message_def ok_def Let_def
        expired_again_null_def scripted_def reply_def signed_in_def browser_def no_options_def)

lemma no_refresh_token_401:
  assumes "has_window w"
    and "\<not> truthy (getItem w ''refresh_token'')"
    and "rq_orig = build_request rt (API_BASE_URL w @ endpoint) options JUndefined w"
    and "net (fetches w) rq_orig = Responded resp_orig" and "status resp_orig = 401"
  shows "fetches (snd (apiRequest rt net endpoint options w)) = fetches w @ [rq_orig]
       \<and> localStorage (snd (apiRequest rt net endpoint options w)) = (localStorage w)(''access_token'' := None)
       \<and> (\<not> nullish (error_body resp_orig) \<longrightarrow>
            fst (apiRequest rt net endpoint options w) =
              Inl (ApiError
                  (js_to_string rt
                     (js_or (js_or (member (error_body resp_orig) ''detail'') (JStr (statusText resp_orig)))
                        (JStr ''An error occurred'')))
                  401 (Some resp_orig)))"
proof -
  have seg: "on_original rt (Responded resp_orig) (issue rq_orig w) =
           (Done (case status_message rt (error_body resp_orig) resp_orig of
                    Inl e \<Rightarrow> Inl e
                  | Inr m \<Rightarrow> Inl (ApiError (js_to_string rt m) (status resp_orig) (Some resp_orig))),
            redirect_to_login (removeItem ''access_token'' (issue rq_orig w)))"
    using assms(1,2,5) by (intro on_original_401_no_refresh) (simp_all add: has_window_issue getItem_issue)
  have call: "apiRequest rt net endpoint options w =
           (case status_message rt (error_body resp_orig) resp_orig of
                    Inl e \<Rightarrow> Inl e
                  | Inr m \<Rightarrow> Inl (ApiError (js_to_string rt m) (status resp_orig) (Some resp_orig)),
            redirect_to_login (removeItem ''access_token'' (issue rq_orig w)))"
    using assms(4) seg by (simp add: apiRequest_def do_fetch_def assms(3) [symmetric])
  show ?thesis
    using assms(5)
    by (simp add: call status_message_not_nullish localStorage_redirect fetches_redirect
          removeItem_def issue_def)
qed

text \<open>
  C3.  A 401 met with a window and no refresh token in the store sends no refresh call and
  removes the stored access token; the call throws an \<^verbatim>\<open>ApiError\<close> with the response's
  status and the message read from its body as long as that body is not the JSON value
  \<^verbatim>\<open>null\<close> (\<open>no_refresh_token_401\<close>).  On a 401 whose body is \<^verbatim>\<open>null\<close> the access token
  is removed and the call throws the engine's \<^verbatim>\<open>TypeError\<close> for \<^verbatim>\<open>errorData.detail\<close>
  instead of the authentication error.
\<close>

theorem null_body_401_no_refresh_token:
  "fst (apiRequest rt (scripted [reply 401 ''Unauthorized'' JNull]) ''/api/cards/'' no_options
          (browser [''access_token'' \<mapsto> ''A1''] ''/dashboard''))
     = Inl (TypeError (nullish_read_message rt JNull ''detail''))
   \<and> localStorage
         (snd (apiRequest rt (scripted [reply 401 ''Unauthorized'' JNull]) ''/api/cards/'' no_options
                 (browser [''access_token'' \<mapsto> ''A1''] ''/dashboard''))) = Map.empty"
  by (simp add: apiRequest_def do_fetch_def on_original_def get_prop_def nullish_def member_def getItem_def issue_def
        error_body_def detail_or_def status_message_def Let_def redirect_to_login_def removeItem_def
        scripted_def reply_def browser_def no_options_def)

lemma forbidden_response:
  assumes "net (fetches w)
             (build_request rt (API_BASE_URL w @ endpoint) options JUndefined w) = Responded resp"
    and "status resp = 403" and "\<not> nullish (error_body resp)"
  shows "fst (apiRequest rt net endpoint options w) =
           Inl (ApiError
                  (js_to_string rt
                     (js_or (member (error_body resp) ''detail'')
                        (JStr ''Access forbidden. This endpoint requires admin privileges.'')))
                  403 (Some resp))
       \<and> localStorage (snd (apiRequest rt net endpoint options w)) = localStorage w"
proof -
  have "\<not> ok resp" using assms(2) by (simp add: ok_def)
  from finish_failure [OF this assms(3), of rt] assms(1,2) show ?thesis
    by (simp add: apiRequest_not_401 localStorage_issue)
qed

text \<open>
  C9.  A 403 response makes the call throw an \<^verbatim>\<open>ApiError\<close> of status 403 whose message
  is the body's \<^verbatim>\<open>detail\<close> or the admin-privileges default, and the store is left alone,
  as long as the body is not the JSON value \<^verbatim>\<open>null\<close> (\<open>forbidden_response\<close>,
  \<open>finish_failure\<close>).  On a 403 whose body is \<^verbatim>\<open>null\<close> the call throws the engine's
  \<^verbatim>\<open>TypeError\<close> for \<^verbatim>\<open>errorData.detail\<close>: not the error kind of the other failures,
  and with no status attached.
\<close>

theorem null_body_403:
  "fst (apiRequest rt (scripted [reply 403 ''Forbidden'' JNull]) ''/api/players/'' no_options signed_in)
     = Inl (TypeError (nullish_read_message rt JNull ''detail''))"
  by (simp add: apiRequest_def do_fetch_def on_original_def finish_def get_prop_def nullish_def member_def
        error_body_def detail_or_def status_message_def ok_def Let_def
        scripted_def reply_def signed_in_def browser_def no_options_def)

section \<open>The token codec: decoding what a token carries\<close>

lemma hi16: "(b::nat) < 256 \<Longrightarrow> b div 16 < 16" by simp
lemma hi64: "(c::nat) < 256 \<Longrightarrow> c div 64 < 4" by simp
lemma div16: "(x::nat) < 16 \<Longrightarrow> (16 * q + x) div 16 = q" by simp
lemma mod16: "(x::nat) < 16 \<Longrightarrow> (16 * q + x) mod 16 = x" by simp
lemma div4: "(x::nat) < 4 \<Longrightarrow> (4 * q + x) div 4 = q" by simp
lemma mod4: "(x::nat) < 4 \<Longrightarrow> (4 * q + x) mod 4 = x" by simp

lemma sextets_small: "\<forall>b\<in>set bs. b < 256 \<Longrightarrow> \<forall>s\<in>set (bytes_to_sextets bs). s < 64"
  by (induction bs rule: bytes_to_sextets.induct) auto

lemma length_sextets: "length (bytes_to_sextets bs) mod 4 \<noteq> 1"
  by (induction bs rule: bytes_to_sextets.induct) auto

lemma sextets_roundtrip:
  "\<forall>b\<in>set bs. b < 256 \<Longrightarrow> sextets_to_bytes (bytes_to_sextets bs) = bs"
proof (induction bs rule: bytes_to_sextets.induct)
  case (1 a b c rest)
  have b: "b div 16 < 16" and c: "c div 64 < 4" using 1(2) by (simp_all add: hi16 hi64)
  show ?case using 1 b c by (simp add: div16 [OF b] mod16 [OF b] div4 [OF c] mod4 [OF c])
next
  case (2 a b)
  have b: "b div 16 < 16" using 2 by (simp add: hi16)
  show ?case using b by (simp add: div16 [OF b] mod16 [OF b])
next
  case (3 a)
  show ?case by simp
next
  case 4
  show ?case by simp
qed

lemma char_of_eq_const: "k < 256 \<Longrightarrow> (char_of k = c) = (k = (of_char c :: nat))"
  by (metis of_char_of char_of_char mod_less)

lemma of_char_url: "n < 64 \<Longrightarrow> (of_char (base64url_char n) :: nat) =
   (if n < 26 then 65 + n else if n < 52 then 71 + n else if n < 62 then n - 4
    else if n = 62 then 45 else 95)"
  by (simp add: base64url_char_def)

lemma of_char_standard: "n < 64 \<Longrightarrow> (of_char (standard_char n) :: nat) =
   (if n < 26 then 65 + n else if n < 52 then 71 + n else if n < 62 then n - 4
    else if n = 62 then 43 else 47)"
  by (auto simp: standard_char_def base64url_char_def Let_def char_of_eq_const)

lemma standard_char_props:
  assumes "n < 64"
  shows "base64_value (standard_char n) = Some n" "\<not> ascii_whitespace (standard_char n)"
    "standard_char n \<noteq> CHR ''=''" "base64url_char n \<noteq> CHR ''.''"
proof -
  show "base64_value (standard_char n) = Some n"
    using assms by (auto simp: base64_value_def of_char_standard Let_def)
  show "\<not> ascii_whitespace (standard_char n)"
    using assms by (auto simp: ascii_whitespace_def of_char_standard Let_def)
  have "(of_char (standard_char n) :: nat) \<noteq> of_char (CHR ''='')"
    using assms by (auto simp: of_char_standard)
  then show "standard_char n \<noteq> CHR ''=''" by auto
  have "(of_char (base64url_char n) :: nat) \<noteq> of_char (CHR ''.'')"
    using assms by (auto simp: of_char_url)
  then show "base64url_char n \<noteq> CHR ''.''" by auto
qed

lemma hex_value_digit: "n < 16 \<Longrightarrow> hex_value (hex_digit n) = Some n"
  by (auto simp: hex_value_def hex_digit_def Let_def)

lemma replace_base64url:
  "replace_all (CHR ''_'') (CHR ''/'') (replace_all (CHR ''-'') (CHR ''+'') (base64url bs))
     = map standard_char (bytes_to_sextets bs)"
  by (simp add: replace_all_def base64url_def standard_char_def Let_def)
lemma those_map_Some: "\<forall>x\<in>set xs. f x = Some (g x) \<Longrightarrow> those (map f xs) = Some (map g xs)"
  by (induction xs) auto

lemma those_None: "None \<in> set xs \<Longrightarrow> those xs = None"
  by (induction xs) (auto split: option.splits)

lemma strip_padding_none: "CHR ''='' \<notin> set s \<Longrightarrow> strip_padding s = s"
proof (cases "s = []")
  case True
  then show ?thesis by (simp add: strip_padding_def)
next
  case False
  assume "CHR ''='' \<notin> set s"
  with False last_in_set [of s] have "last s \<noteq> CHR ''=''" by metis
  then show ?thesis by (simp add: strip_padding_def)
qed

lemma atob_base64url:
  assumes "\<forall>b\<in>set bs. b < 256"
  shows "atob (replace_all (CHR ''_'') (CHR ''/'') (replace_all (CHR ''-'') (CHR ''+'') (base64url bs)))
           = Some bs"
proof -
  let ?xs = "bytes_to_sextets bs"
  let ?data = "map standard_char ?xs"
  have small: "\<forall>s\<in>set ?xs. s < 64" using assms by (rule sextets_small)
  have nows: "filter (\<lambda>c. \<not> ascii_whitespace c) ?data = ?data"
    using small by (simp add: standard_char_props filter_id_conv)
  have nopad: "strip_padding ?data = ?data"
  proof (rule strip_padding_none)
    show "CHR ''='' \<notin> set ?data"
    proof
      assume "CHR ''='' \<in> set ?data"
      then obtain n where "n \<in> set ?xs" and "standard_char n = CHR ''=''" by auto
      with small standard_char_props(3) [of n] show False by simp
    qed
  qed
  have vals: "those (map (base64_value \<circ> standard_char) ?xs) = Some ?xs"
    using those_map_Some [of ?xs "base64_value \<circ> standard_char" "\<lambda>n. n"] small
    by (simp add: standard_char_props)
  show ?thesis
    using length_sextets [of bs] assms
    by (simp add: atob_def replace_base64url nows nopad vals sextets_roundtrip Let_def)
qed
lemma to_hex_byte:
  "n < 256 \<Longrightarrow> to_hex n = (if n < 16 then [hex_digit n] else [hex_digit (n div 16), hex_digit (n mod 16)])"
  by (subst to_hex.simps, subst to_hex.simps) (simp add: hi16)

lemma char_of_48: "char_of (48 :: nat) = CHR ''0''"
  by (simp add: char_of_eq_const)

lemma percent_code_byte:
  "n < 256 \<Longrightarrow> percent_code n = [CHR ''%'', hex_digit (n div 16), hex_digit (n mod 16)]"
  by (simp add: percent_code_def to_hex_byte Let_def hex_digit_def char_of_48)

lemma uri_items_percent:
  "\<forall>b\<in>set bs. b < 256 \<Longrightarrow> uri_items (concat (map percent_code bs)) = Some (map Escaped bs)"
proof (induction bs)
  case Nil
  show ?case by simp
next
  case (Cons b bs)
  then have b: "b < 256" by simp
  then have "b div 16 < 16" by (rule hi16)
  then show ?case using Cons b
    by (simp add: percent_code_byte hex_value_digit)
qed

lemma item_chars: "map item_char (map Escaped bs) = map char_of bs"
  by simp

lemma decodeURIComponent_percent:
  "\<forall>b\<in>set bs. b < 256 \<Longrightarrow>
     decodeURIComponent (concat (map percent_code bs)) =
       (if utf8_bytes_ok bs then Some (map char_of bs) else None)"
  by (simp add: decodeURIComponent_def uri_items_percent utf8_bytes_ok_def comp_def)

lemma decode_payload_base64url:
  assumes "\<forall>b\<in>set bs. b < 256"
  shows "decode_payload (base64url bs) =
           (if utf8_bytes_ok bs
            then (case JSON_parse (map char_of bs) of None \<Rightarrow> JNull | Some v \<Rightarrow> v)
            else JNull)"
  using assms
  by (simp add: decode_payload_def Let_def atob_base64url decodeURIComponent_percent)
lemma split_on_absent: "c \<notin> set s \<Longrightarrow> split_on c s = [s]"
  by (induction s) auto

lemma split_on_first: "c \<notin> set a \<Longrightarrow> split_on c (a @ c # b) = a # split_on c b"
  by (induction a) auto

lemma split_on_not_Nil: "split_on c s \<noteq> []"
  by (induction s) (auto split: list.splits)

lemma no_dot_in_base64url:
  assumes "\<forall>b\<in>set bs. b < 256"
  shows "CHR ''.'' \<notin> set (base64url bs)"
proof
  assume "CHR ''.'' \<in> set (base64url bs)"
  then obtain n where "n \<in> set (bytes_to_sextets bs)" and "base64url_char n = CHR ''.''"
    by (auto simp: base64url_def)
  with sextets_small [OF assms] standard_char_props(4) [of n] show False by simp
qed

lemma split_token:
  assumes "CHR ''.'' \<notin> set h" and "\<forall>b\<in>set bs. b < 256"
    and "rest = [] \<or> (\<exists>r. rest = CHR ''.'' # r)"
  shows "\<exists>segs. split_on (CHR ''.'') (h @ ''.'' @ base64url bs @ rest) = h # base64url bs # segs"
proof -
  have 1: "split_on (CHR ''.'') (h @ ''.'' @ base64url bs @ rest)
             = h # split_on (CHR ''.'') (base64url bs @ rest)"
    using split_on_first [OF assms(1), of "base64url bs @ rest"] by simp
  from assms(3) show ?thesis
  proof
    assume "rest = []"
    then show ?thesis using 1 split_on_absent [OF no_dot_in_base64url [OF assms(2)]] by simp
  next
    assume "\<exists>r. rest = CHR ''.'' # r"
    then obtain r where "rest = CHR ''.'' # r" ..
    then show ?thesis
      using 1 split_on_first [OF no_dot_in_base64url [OF assms(2)], of r]
      by (cases "split_on (CHR ''.'') r") (simp_all add: split_on_not_Nil)
  qed
qed

lemma decodeToken_carrying:
  assumes "CHR ''.'' \<notin> set h" and "\<forall>b\<in>set bs. b < 256"
    and "rest = [] \<or> (\<exists>r. rest = CHR ''.'' # r)"
  shows "decodeToken (h @ ''.'' @ base64url bs @ rest) =
           (if utf8_bytes_ok bs
            then (case JSON_parse (map char_of bs) of None \<Rightarrow> JNull | Some v \<Rightarrow> v)
            else JNull)"
proof -
  from split_token [OF assms] obtain segs
    where "split_on (CHR ''.'') (h @ ''.'' @ base64url bs @ rest) = h # base64url bs # segs" ..
  then show ?thesis
    by (simp add: decodeToken_def decode_payload_base64url [OF assms(2)])
qed

lemma decodeToken_one_segment: "CHR ''.'' \<notin> set token \<Longrightarrow> decodeToken token = JNull"
  by (simp add: decodeToken_def split_on_absent)

lemma in_set_butlast_other:
  assumes "c \<in> set s" and "c \<noteq> last s"
  shows "c \<in> set (butlast s)"
proof -
  from assms(1) have "s \<noteq> []" by auto
  then have "set s = set (butlast s) \<union> {last s}"
    by (metis append_butlast_last_id list.set(1) list.simps(15) set_append)
  with assms show ?thesis by auto
qed

lemma set_strip_padding:
  assumes "c \<in> set s" and "c \<noteq> CHR ''=''"
  shows "c \<in> set (strip_padding s)"
proof (cases "length s mod 4 = 0 \<and> s \<noteq> [] \<and> last s = CHR ''=''")
  case False
  then show ?thesis using assms(1) by (auto simp: strip_padding_def)
next
  case True
  then have 1: "c \<in> set (butlast s)"
    using in_set_butlast_other [of c s] assms by simp
  show ?thesis
  proof (cases "butlast s \<noteq> [] \<and> last (butlast s) = CHR ''=''")
    case False
    with True 1 show ?thesis by (auto simp: strip_padding_def)
  next
    case both: True
    then have "c \<in> set (butlast (butlast s))"
      using in_set_butlast_other [of c "butlast s"] 1 assms(2) by simp
    with True both show ?thesis by (simp add: strip_padding_def)
  qed
qed

lemma atob_rejects:
  assumes "c \<in> set s" and "base64_value c = None" and "\<not> ascii_whitespace c" and "c \<noteq> CHR ''=''"
  shows "atob s = None"
proof -
  let ?data = "strip_padding (filter (\<lambda>c. \<not> ascii_whitespace c) s)"
  have "c \<in> set ?data" using assms(1,3,4) by (intro set_strip_padding) simp_all
  then have "None \<in> set (map base64_value ?data)" using assms(2) by force
  then have "those (map base64_value ?data) = None" by (rule those_None)
  then show ?thesis by (simp add: atob_def Let_def)
qed

lemma decode_payload_rejects:
  assumes "c \<in> set seg" and "foreign_char c"
  shows "decode_payload seg = JNull"
proof -
  let ?f = "\<lambda>c. if c = CHR ''-'' then CHR ''+'' else if c = CHR ''_'' then CHR ''/'' else c"
  let ?base64 = "replace_all (CHR ''_'') (CHR ''/'') (replace_all (CHR ''-'') (CHR ''+'') seg)"
  have eq: "?base64 = map ?f seg" by (simp add: replace_all_def)
  have in_set: "?f c \<in> set ?base64" using assms(1) unfolding eq by auto
  have "base64_value (?f c) = None" "\<not> ascii_whitespace (?f c)" "?f c \<noteq> CHR ''=''"
    using assms(2)
    by (auto simp: foreign_char_def alphabet_char_def base64_value_def ascii_whitespace_def Let_def)
  with in_set have "atob ?base64 = None" by (rule atob_rejects)
  then show ?thesis by (simp add: decode_payload_def Let_def)
qed

lemma filter_all: "\<forall>x\<in>set xs. P x \<Longrightarrow> filter P xs = xs"
  by (induction xs) auto

lemma decode_payload_bad_length:
  assumes "\<forall>c\<in>set seg. alphabet_char c" and "length seg mod 4 = 1"
  shows "decode_payload seg = JNull"
proof -
  define f where "f = (\<lambda>c. if c = CHR ''-'' then CHR ''+'' else if c = CHR ''_'' then CHR ''/'' else c)"
  let ?base64 = "replace_all (CHR ''_'') (CHR ''/'') (replace_all (CHR ''-'') (CHR ''+'') seg)"
  have eq: "?base64 = map f seg" by (simp add: replace_all_def f_def)
  have plain: "\<not> ascii_whitespace (f c) \<and> f c \<noteq> CHR ''=''" if "alphabet_char c" for c
    using that by (auto simp: f_def alphabet_char_def ascii_whitespace_def Let_def)
  have "\<forall>x\<in>set (map f seg). \<not> ascii_whitespace x" using assms(1) plain by auto
  then have 1: "filter (\<lambda>c. \<not> ascii_whitespace c) (map f seg) = map f seg" by (rule filter_all)
  have "\<forall>x\<in>set (map f seg). x \<noteq> CHR ''=''" using assms(1) plain by auto
  then have "CHR ''='' \<notin> set (map f seg)" by blast
  then have 2: "strip_padding (map f seg) = map f seg" by (rule strip_padding_none)
  have 3: "length (map f seg) mod 4 = 1" using assms(2) by simp
  have "atob (map f seg) = None" by (simp only: atob_def 1 2 3 Let_def) simp
  then show ?thesis by (simp add: decode_payload_def Let_def eq)
qed

lemma admin_payload_is_base64url: "base64url admin_payload_bytes = admin_payload"
  unfolding admin_payload_bytes_def admin_payload_def by code_simp

lemma admin_payload_bytes_small: "\<forall>b\<in>set admin_payload_bytes. b < 256"
  unfolding admin_payload_bytes_def by simp

lemma admin_payload_bytes_utf8: "utf8_bytes_ok admin_payload_bytes"
  unfolding admin_payload_bytes_def utf8_bytes_ok_def by simp

lemma admin_payload_bytes_text:
  "JSON_text (map char_of admin_payload_bytes) =
     Some (JObj [(''sub'', JStr ''42''), (''is_admin'', JBool True), (''exp'', JNum (JsFinite 1900000000))])"
  unfolding admin_payload_bytes_def by code_simp

lemma to_double_1900000000: "to_double 1900000000 = JsFinite 1900000000"
  using to_double_of_int [of 1900000000] by simp

lemma admin_payload_bytes_json:
  "JSON_parse (map char_of admin_payload_bytes) =
     Some (JObj [(''sub'', JStr ''42''), (''is_admin'', JBool True), (''exp'', JNum (JsFinite 1900000000))])"
  by (simp add: JSON_parse_def admin_payload_bytes_text to_double_1900000000)

lemma decode_admin_payload:
  "decode_payload admin_payload =
     JObj [(''sub'', JStr ''42''), (''is_admin'', JBool True), (''exp'', JNum (JsFinite 1900000000))]"
  using decode_payload_base64url [OF admin_payload_bytes_small]
  by (simp add: admin_payload_is_base64url admin_payload_bytes_utf8 admin_payload_bytes_json)

lemma member_to_doubles: "member (to_doubles v) k = to_doubles (member v k)"
proof (cases v)
  case (JObj kvs)
  have "map_of (map (\<lambda>(k, v). (k, to_doubles v)) kvs) k = map_option to_doubles (map_of kvs k)"
    by (induction kvs) auto
  then show ?thesis using JObj by (simp add: member_def split: option.splits)
qed (simp_all add: member_def)

text \<open>
  A token of two segments decodes like one of three: the segments are never counted.
\<close>

theorem decodeToken_two_segments_counterexample:
  "decodeToken (''x.'' @ admin_payload) =
     JObj [(''sub'', JStr ''42''), (''is_admin'', JBool True), (''exp'', JNum (JsFinite 1900000000))]"
proof -
  have "split_on (CHR ''.'') (''x.'' @ admin_payload) = [''x'', admin_payload]"
    by (simp add: admin_payload_def)
  then show ?thesis by (simp add: decodeToken_def decode_admin_payload)
qed

text \<open>
  An expiry that is no double comes back rounded: \<^verbatim>\<open>{"exp":9007199254740993}\<close> decodes
  to an \<^verbatim>\<open>exp\<close> of 9007199254740992.
\<close>

lemma decodeToken_rounds_exp:
  "member (decodeToken (''x.'' @ base64url odd_expiry_bytes)) ''exp'' = JNum (JsFinite 9007199254740992)"
proof -
  have small: "\<forall>b\<in>set odd_expiry_bytes. b < 256" unfolding odd_expiry_bytes_def by simp
  have utf8: "utf8_bytes_ok odd_expiry_bytes" unfolding odd_expiry_bytes_def utf8_bytes_ok_def by simp
  have json: "JSON_parse (map char_of odd_expiry_bytes) = Some (JObj [(''exp'', JNum (JsFinite 9007199254740992))])"
    unfolding odd_expiry_bytes_def by code_simp
  have "decodeToken (''x'' @ ''.'' @ base64url odd_expiry_bytes @ []) = JObj [(''exp'', JNum (JsFinite 9007199254740992))]"
    using decodeToken_carrying [of "''x''" odd_expiry_bytes "[]"] small utf8 json by simp
  then show ?thesis by (simp add: member_def)
qed

text \<open>
  C5, as the code has it.  Take a token whose header has no dot, whose second segment is
  the base64url text of the bytes \<open>bs\<close>, and which ends there or goes on with a dot
  (any number of further segments).  If \<open>bs\<close> is well-formed UTF-8 and the JSON text of
  \<open>claims\<close>, \<open>decodeToken\<close> returns \<open>claims\<close> with every number rounded to the nearest
  double, so that an encoded \<^verbatim>\<open>exp\<close> that is an integer of magnitude at most \<open>2 ^ 53\<close>
  is the \<^verbatim>\<open>exp\<close> it shows; if \<open>bs\<close> is not well-formed UTF-8 or not a JSON text, it
  returns \<^verbatim>\<open>null\<close>.  It also returns \<^verbatim>\<open>null\<close> for every input without a dot (the empty
  string, a single segment), for every input whose second segment holds a foreign
  character (neither a letter, a digit, \<^verbatim>\<open>+\<close>, \<^verbatim>\<open>/\<close>, \<^verbatim>\<open>-\<close>, \<^verbatim>\<open>_\<close>, \<^verbatim>\<open>=\<close> nor ASCII
  white space), and for every input whose second segment is made of letters, digits and
  these four signs and has a length that leaves 1 when divided by 4.  \<open>decodeToken\<close> is a
  total function: no input makes it raise.  \<^verbatim>\<open>parseJwt\<close> returns what \<open>decodeToken\<close> does
  where there is a window, and \<^verbatim>\<open>null\<close> where there is none.
\<close>

theorem decodeToken_claims_or_null:
  "(CHR ''.'' \<notin> set h \<and> (\<forall>b\<in>set bs. b < 256) \<and> (rest = [] \<or> (\<exists>r. rest = CHR ''.'' # r))
      \<and> utf8_bytes_ok bs \<and> JSON_text (map char_of bs) = Some claims
    \<longrightarrow> decodeToken (h @ ''.'' @ base64url bs @ rest) = to_doubles claims
        \<and> (member claims ''exp'' = JNum (JsFinite (of_int n)) \<and> \<bar>n\<bar> \<le> 9007199254740992
           \<longrightarrow> member (decodeToken (h @ ''.'' @ base64url bs @ rest)) ''exp''
                 = JNum (JsFinite (of_int n))))
   \<and> (CHR ''.'' \<notin> set h \<and> (\<forall>b\<in>set bs. b < 256) \<and> (rest = [] \<or> (\<exists>r. rest = CHR ''.'' # r))
      \<and> (\<not> utf8_bytes_ok bs \<or> JSON_text (map char_of bs) = None)
    \<longrightarrow> decodeToken (h @ ''.'' @ base64url bs @ rest) = JNull)
   \<and> (CHR ''.'' \<notin> set token \<longrightarrow> decodeToken token = JNull)
   \<and> (split_on (CHR ''.'') token = s0 # seg # segs \<and> c \<in> set seg \<and> foreign_char c
    \<longrightarrow> decodeToken token = JNull)
   \<and> (split_on (CHR ''.'') token = s0 # seg # segs \<and> (\<forall>c\<in>set seg. alphabet_char c)
      \<and> length seg mod 4 = 1
    \<longrightarrow> decodeToken token = JNull)
   \<and> parseJwt w token = (if has_window w then decodeToken token else JNull)"
proof (intro conjI impI)
  assume a: "CHR ''.'' \<notin> set h \<and> (\<forall>b\<in>set bs. b < 256) \<and> (rest = [] \<or> (\<exists>r. rest = CHR ''.'' # r))
      \<and> utf8_bytes_ok bs \<and> JSON_text (map char_of bs) = Some claims"
  then show d: "decodeToken (h @ ''.'' @ base64url bs @ rest) = to_doubles claims"
    using decodeToken_carrying [of h bs rest] by (simp add: JSON_parse_def)
  assume "member claims ''exp'' = JNum (JsFinite (of_int n)) \<and> \<bar>n\<bar> \<le> 9007199254740992"
  then show "member (decodeToken (h @ ''.'' @ base64url bs @ rest)) ''exp'' = JNum (JsFinite (of_int n))"
    by (simp only: d member_to_doubles) (simp add: to_double_of_int)
next
  assume "CHR ''.'' \<notin> set h \<and> (\<forall>b\<in>set bs. b < 256) \<and> (rest = [] \<or> (\<exists>r. rest = CHR ''.'' # r))
      \<and> (\<not> utf8_bytes_ok bs \<or> JSON_text (map char_of bs) = None)"
  then show "decodeToken (h @ ''.'' @ base64url bs @ rest) = JNull"
    using decodeToken_carrying [of h bs rest] by (auto simp add: JSON_parse_def)
next
  assume "CHR ''.'' \<notin> set token"
  then show "decodeToken token = JNull" by (rule decodeToken_one_segment)
next
  assume "split_on (CHR ''.'') token = s0 # seg # segs \<and> c \<in> set seg \<and> foreign_char c"
  then show "decodeToken token = JNull"
    by (simp add: decodeToken_def decode_payload_rejects [of c seg])
next
  assume "split_on (CHR ''.'') token = s0 # seg # segs \<and> (\<forall>c\<in>set seg. alphabet_char c)
      \<and> length seg mod 4 = 1"
  then show "decodeToken token = JNull"
    by (simp add: decodeToken_def decode_payload_bad_length)
next
  show "parseJwt w token = (if has_window w then decodeToken token else JNull)"
    by (simp add: parseJwt_def)
qed

theorem decodeToken_claims_or_null_witness:
  "decodeToken admin_token =
     JObj [(''sub'', JStr ''42''), (''is_admin'', JBool True), (''exp'', JNum (JsFinite 1900000000))]
   \<and> member (decodeToken admin_token) ''exp'' = JNum (JsFinite 1900000000)
   \<and> decodeToken (''eyJhbGciOiJIUzI1NiIsInR5cCI6IkpXVCJ9.'' @ base64url [255, 254] @ ''.c2ln'') = JNull
   \<and> decodeToken [] = JNull
   \<and> decodeToken ''eyJhbGciOiJIUzI1NiIsInR5cCI6IkpXVCJ9'' = JNull
   \<and> decodeToken ''eyJhbGciOiJIUzI1NiIsInR5cCI6IkpXVCJ9.e30*.c2ln'' = JNull
   \<and> decodeToken ''eyJhbGciOiJIUzI1NiIsInR5cCI6IkpXVCJ9.e30ab.c2ln'' = JNull"
proof -
  let ?h = "''eyJhbGciOiJIUzI1NiIsInR5cCI6IkpXVCJ9''"
  let ?claims = "JObj [(''sub'', JStr ''42''), (''is_admin'', JBool True), (''exp'', JNum (JsFinite 1900000000))]"
  note main = decodeToken_claims_or_null
  have h: "CHR ''.'' \<notin> set ?h" by simp
  have rest: "''.c2ln'' = [] \<or> (\<exists>r. ''.c2ln'' = CHR ''.'' # r)" by simp
  have e: "member ?claims ''exp'' = JNum (JsFinite (of_int 1900000000))" by (simp add: member_def)
  have n: "\<bar>1900000000 :: int\<bar> \<le> 9007199254740992" by simp
  from main [of ?h admin_payload_bytes "''.c2ln''" ?claims 1900000000]
       h rest admin_payload_bytes_small admin_payload_bytes_utf8 admin_payload_bytes_text e n
  have "decodeToken (?h @ ''.'' @ base64url admin_payload_bytes @ ''.c2ln'') = to_doubles ?claims
      \<and> member (decodeToken (?h @ ''.'' @ base64url admin_payload_bytes @ ''.c2ln'')) ''exp''
          = JNum (JsFinite (of_int 1900000000))" by blast
  then have 1: "decodeToken admin_token = ?claims
      \<and> member (decodeToken admin_token) ''exp'' = JNum (JsFinite 1900000000)"
    by (simp add: admin_payload_is_base64url admin_token_def to_double_1900000000 member_def)
  have bad: "\<not> utf8_bytes_ok [255, 254]" by (simp add: utf8_bytes_ok_def)
  have small: "\<forall>b\<in>set [255, 254 :: nat]. b < 256" by simp
  from main [of ?h "[255, 254]" "''.c2ln''"] h rest bad small
  have 2: "decodeToken (?h @ ''.'' @ base64url [255, 254] @ ''.c2ln'') = JNull" by blast
  from main [of _ _ _ _ _ "[]"] have 3: "decodeToken [] = JNull" by simp
  from main [of _ _ _ _ _ ?h] h have 4: "decodeToken ?h = JNull" by blast
  have split: "split_on (CHR ''.'') ''eyJhbGciOiJIUzI1NiIsInR5cCI6IkpXVCJ9.e30*.c2ln''
                 = [?h, ''e30*'', ''c2ln'']" by simp
  have star: "CHR ''*'' \<in> set ''e30*''" by simp
  have nb: "foreign_char (CHR ''*'')"
    by (simp add: foreign_char_def alphabet_char_def)
  from main [of _ _ _ _ _ "''eyJhbGciOiJIUzI1NiIsInR5cCI6IkpXVCJ9.e30*.c2ln''" ?h "''e30*''" "[''c2ln'']" "CHR ''*''"]
       split star nb
  have 5: "decodeToken ''eyJhbGciOiJIUzI1NiIsInR5cCI6IkpXVCJ9.e30*.c2ln'' = JNull" by blast
  have split5: "split_on (CHR ''.'') ''eyJhbGciOiJIUzI1NiIsInR5cCI6IkpXVCJ9.e30ab.c2ln''
                 = [?h, ''e30ab'', ''c2ln'']" by simp
  have letters: "\<forall>c\<in>set ''e30ab''. alphabet_char c" by (simp add: alphabet_char_def)
  have five: "length ''e30ab'' mod 4 = 1" by simp
  from main [of _ _ _ _ _ "''eyJhbGciOiJIUzI1NiIsInR5cCI6IkpXVCJ9.e30ab.c2ln''" ?h "''e30ab''" "[''c2ln'']"]
       split5 letters five
  have 6: "decodeToken ''eyJhbGciOiJIUzI1NiIsInR5cCI6IkpXVCJ9.e30ab.c2ln'' = JNull" by blast
  from 1 2 3 4 5 6 show ?thesis by (simp add: member_def)
qed

section \<open>The session controller\<close>

lemma split_admin_token:
  "split_on (CHR ''.'') admin_token =
     [''eyJhbGciOiJIUzI1NiIsInR5cCI6IkpXVCJ9'', admin_payload, ''c2ln'']"
  by (simp add: admin_token_def admin_payload_def)

lemma decodeToken_admin_token:
  "decodeToken admin_token =
     JObj [(''sub'', JStr ''42''), (''is_admin'', JBool True), (''exp'', JNum (JsFinite 1900000000))]"
  by (simp add: decodeToken_def split_admin_token decode_admin_payload)

lemma member_defined_truthy: "member v k \<noteq> JUndefined \<Longrightarrow> truthy v"
  by (cases v) (simp_all add: member_def)

lemma times_1000_of_int:
  "\<bar>n * 1000\<bar> \<le> 9007199254740992 \<Longrightarrow> times_1000 (JsFinite (of_int n)) = JsFinite (of_int (n * 1000))"
  using to_double_of_int [of "n * 1000"] by (simp add: times_1000_def)

lemma unexpired_integer_exp:
  assumes "member decoded ''exp'' = JNum (JsFinite (of_int n))"
    and "\<bar>n * 1000\<bar> \<le> 9007199254740992"
  shows "unexpired rt now decoded \<longleftrightarrow> now < n * 1000"
proof -
  have "truthy decoded" using assms(1) by (intro member_defined_truthy [of decoded "''exp''"]) simp
  moreover have "greater_than (times_1000 (JsFinite (of_int n))) now \<longleftrightarrow> now < n * 1000"
    by (simp only: times_1000_of_int [OF assms(2)] greater_than_def jsnum.case of_int_less_iff)
  ultimately show ?thesis by (simp add: unexpired_def to_number_def assms(1))
qed

text \<open>
  C6.  On initialization \<^verbatim>\<open>checkAuth\<close> runs from the initial state.  When the store
  holds an access token that decodes to claims whose \<^verbatim>\<open>exp\<close> is a whole number of
  seconds later than now (in the range of milliseconds a double counts exactly, up to
  \<open>2 ^ 53\<close>) and whose \<^verbatim>\<open>is_admin\<close> is true, the state becomes authenticated, admin, not
  loading, and the browsing context is unchanged: no request was sent, so no refresh
  call.  When the store holds no access token, the state becomes not authenticated, not
  admin, not loading, again with no request.
\<close>

theorem checkAuth_on_initialization:
  "(localStorage w ''access_token'' = Some token \<and> token \<noteq> []
      \<and> member (decodeToken token) ''exp'' = JNum (JsFinite (of_int n))
      \<and> clock w < n * 1000 \<and> \<bar>n * 1000\<bar> \<le> 9007199254740992
      \<and> member (decodeToken token) ''is_admin'' = JBool True
    \<longrightarrow> checkAuth rt net (w, initial_session) =
          (w, \<lparr> isAuthenticated = True, isAdmin = JBool True, isLoading = False \<rparr>))
   \<and> (localStorage w ''access_token'' = None
    \<longrightarrow> checkAuth rt net (w, initial_session) =
          (w, \<lparr> isAuthenticated = False, isAdmin = JBool False, isLoading = False \<rparr>))"
proof (intro conjI impI)
  assume a: "localStorage w ''access_token'' = Some token \<and> token \<noteq> []
      \<and> member (decodeToken token) ''exp'' = JNum (JsFinite (of_int n))
      \<and> clock w < n * 1000 \<and> \<bar>n * 1000\<bar> \<le> 9007199254740992
      \<and> member (decodeToken token) ''is_admin'' = JBool True"
  then have "unexpired rt (clock w) (decodeToken token)"
    using unexpired_integer_exp [of "decodeToken token" n rt "clock w"] by blast
  with a show "checkAuth rt net (w, initial_session) =
          (w, \<lparr> isAuthenticated = True, isAdmin = JBool True, isLoading = False \<rparr>)"
    by (simp add: checkAuth_def getItem_def decodeToken_any_def signed_in_as_def
          initial_session_def js_or_def Let_def)
next
  assume "localStorage w ''access_token'' = None"
  then show "checkAuth rt net (w, initial_session) =
          (w, \<lparr> isAuthenticated = False, isAdmin = JBool False, isLoading = False \<rparr>)"
    by (simp add: checkAuth_def getItem_def signed_out_def initial_session_def Let_def)
qed

text \<open>
  The token expires at 1900000000 s; now is ten minutes earlier.
\<close>

theorem checkAuth_on_initialization_witness:
  "checkAuth sample_runtime (scripted [])
       ((browser [''access_token'' \<mapsto> admin_token] ''/dashboard'')\<lparr>clock := 1899999400000\<rparr>,
        initial_session)
     = ((browser [''access_token'' \<mapsto> admin_token] ''/dashboard'')\<lparr>clock := 1899999400000\<rparr>,
        \<lparr> isAuthenticated = True, isAdmin = JBool True, isLoading = False \<rparr>)
   \<and> checkAuth sample_runtime (scripted [])
       ((browser Map.empty ''/dashboard'')\<lparr>clock := 1899999400000\<rparr>, initial_session)
     = ((browser Map.empty ''/dashboard'')\<lparr>clock := 1899999400000\<rparr>,
        \<lparr> isAuthenticated = False, isAdmin = JBool False, isLoading = False \<rparr>)"
proof -
  let ?w = "(browser [''access_token'' \<mapsto> admin_token] ''/dashboard'')\<lparr>clock := 1899999400000\<rparr>"
  let ?v = "(browser Map.empty ''/dashboard'')\<lparr>clock := 1899999400000\<rparr>"
  have a: "localStorage ?w ''access_token'' = Some admin_token" by (simp add: browser_def)
  have b: "admin_token \<noteq> []" by (simp add: admin_token_def)
  have d: "member (decodeToken admin_token) ''exp'' = JNum (JsFinite (of_int 1900000000))"
    by (simp add: decodeToken_admin_token member_def)
  have e: "clock ?w < 1900000000 * 1000" by simp
  have r: "\<bar>1900000000 * 1000 :: int\<bar> \<le> 9007199254740992" by simp
  have f: "member (decodeToken admin_token) ''is_admin'' = JBool True"
    by (simp add: decodeToken_admin_token member_def)
  have g: "localStorage ?v ''access_token'' = None" by (simp add: browser_def)
  from checkAuth_on_initialization
         [of ?w admin_token 1900000000 sample_runtime "scripted []"]
       a b d e r f
  have 1: "checkAuth sample_runtime (scripted []) (?w, initial_session)
             = (?w, \<lparr> isAuthenticated = True, isAdmin = JBool True, isLoading = False \<rparr>)"
    by blast
  from checkAuth_on_initialization [of ?v _ _ sample_runtime "scripted []"] g
  have 2: "checkAuth sample_runtime (scripted []) (?v, initial_session)
             = (?v, \<lparr> isAuthenticated = False, isAdmin = JBool False, isLoading = False \<rparr>)"
    by blast
  from 1 2 show ?thesis by blast
qed

text \<open>
  An expiry a fraction of a second ahead that \<^verbatim>\<open>JSON.parse\<close> rounds to the present
  second is not ahead for \<^verbatim>\<open>checkAuth\<close>: it turns to \<^verbatim>\<open>refreshAuth\<close>, which here finds no
  refresh token and removes the access token.
\<close>

lemma checkAuth_rounded_expiry:
  "checkAuth sample_runtime (scripted [])
       ((browser [''access_token'' \<mapsto> ''x.'' @ base64url fraction_expiry_bytes] ''/dashboard'')
          \<lparr>clock := 1700000000000\<rparr>,
        initial_session)
     = ((browser Map.empty ''/dashboard'')\<lparr>clock := 1700000000000\<rparr>,
        \<lparr> isAuthenticated = False, isAdmin = JBool False, isLoading = False \<rparr>)"
proof -
  have small: "\<forall>b\<in>set fraction_expiry_bytes. b < 256" unfolding fraction_expiry_bytes_def by simp
  have utf8: "utf8_bytes_ok fraction_expiry_bytes"
    unfolding fraction_expiry_bytes_def utf8_bytes_ok_def by simp
  have json: "JSON_parse (map char_of fraction_expiry_bytes)
                = Some (JObj [(''exp'', JNum (JsFinite 1700000000)), (''is_admin'', JBool True)])"
    unfolding fraction_expiry_bytes_def by code_simp
  have "decodeToken (''x'' @ ''.'' @ base64url fraction_expiry_bytes @ [])
          = JObj [(''exp'', JNum (JsFinite 1700000000)), (''is_admin'', JBool True)]"
    using decodeToken_carrying [of "''x''" fraction_expiry_bytes "[]"] small utf8 json by simp
  then have decoded: "decodeToken (CHR ''x'' # CHR ''.'' # base64url fraction_expiry_bytes)
          = JObj [(''exp'', JNum (JsFinite 1700000000)), (''is_admin'', JBool True)]"
    by simp
  have "member (JObj [(''exp'', JNum (JsFinite 1700000000)), (''is_admin'', JBool True)]) ''exp''
          = JNum (JsFinite (of_int 1700000000))"
    by (simp add: member_def)
  then have "unexpired sample_runtime 1700000000000
               (JObj [(''exp'', JNum (JsFinite 1700000000)), (''is_admin'', JBool True)])
             \<longleftrightarrow> (1700000000000 :: int) < 1700000000 * 1000"
    by (rule unexpired_integer_exp) simp
  then have stale: "\<not> unexpired sample_runtime 1700000000000
               (JObj [(''exp'', JNum (JsFinite 1700000000)), (''is_admin'', JBool True)])"
    by simp
  show ?thesis
    by (simp add: checkAuth_def refreshAuth_def getItem_def decodeToken_any_def decoded stale
          removeItem_def signed_out_def initial_session_def browser_def Let_def)
qed

text \<open>
  C7.  Whatever the network does with the logout request (a 2xx, a failure status, a
  rejected \<^verbatim>\<open>fetch\<close>, a failed refresh inside the call), \<^verbatim>\<open>logout\<close> ends with both
  tokens removed from the store and the session not authenticated and not admin, and
  then pushes the login route.
\<close>

theorem logout_always_signs_out:
  "localStorage (fst (logout rt net (w, s))) ''access_token'' = None
   \<and> localStorage (fst (logout rt net (w, s))) ''refresh_token'' = None
   \<and> isAuthenticated (snd (logout rt net (w, s))) = False
   \<and> isAdmin (snd (logout rt net (w, s))) = JBool False
   \<and> router_pushes (fst (logout rt net (w, s))) =
         router_pushes (snd (apiClient_logout rt net w)) @ [''/login'']"
  by (cases "apiClient_logout rt net w")
     (simp add: logout_def purge_def removeItem_def signed_out_def)

section \<open>Overlapping calls do not share a refresh\<close>

lemma butlast_fetches_issue: "butlast (fetches (issue rq w)) = fetches w"
  by (simp add: issue_def)

lemma settle_alone_waiting:
  "call_waiting c = Some rq \<Longrightarrow>
     settle_alone rt net (c, issue rq w) = resume rt (net (fetches w) rq) c (issue rq w)"
  by (simp add: settle_alone_def butlast_fetches_issue)

lemma settle_alone_settled:
  "call_waiting c = None \<Longrightarrow> settle_alone rt net (c, w) = (c, w)"
  by (simp add: settle_alone_def)

lemma apiRequest_by_resuming:
  "(case (settle_alone rt net ^^ 3) (start_call rt endpoint options w) of
      (c, w') \<Rightarrow> (call_stage c, w'))
   = (Settled (fst (apiRequest rt net endpoint options w)),
      snd (apiRequest rt net endpoint options w))"
proof -
  let ?u = "API_BASE_URL w @ endpoint"
  let ?rq = "build_request rt ?u options JUndefined w"
  let ?c0 = "\<lparr> call_url = ?u, call_options = options, call_stage = AwaitOriginal,
               call_waiting = Some ?rq \<rparr>"
  have start: "start_call rt endpoint options w = (?c0, issue ?rq w)"
    by (simp add: start_call_def Let_def)
  have three: "(settle_alone rt net ^^ 3) x = settle_alone rt net (settle_alone rt net (settle_alone rt net x))" for x
    by (simp add: numeral_3_eq_3)
  obtain s1 w1 where seg1: "on_original rt (net (fetches w) ?rq) (issue ?rq w) = (s1, w1)"
    by (cases "on_original rt (net (fetches w) ?rq) (issue ?rq w)")
  show ?thesis
  proof (cases s1)
    case (Done res)
    then show ?thesis using seg1
      by (simp add: three start settle_alone_waiting resume_def proceed_def settle_alone_settled
            apiRequest_def do_fetch_def)
  next
    case (Fetching rq2)
    obtain s2 w2 where seg2: "on_refresh rt ?u options (net (fetches w1) rq2) (issue rq2 w1) = (s2, w2)"
      by (cases "on_refresh rt ?u options (net (fetches w1) rq2) (issue rq2 w1)")
    show ?thesis
    proof (cases s2)
      case (Done res)
      then show ?thesis using seg1 seg2 Fetching
        by (simp add: three start settle_alone_waiting resume_def proceed_def settle_alone_settled
              apiRequest_def do_fetch_def)
    next
      case (Fetching rq3)
      obtain res w3 where seg3: "on_retry rt (net (fetches w2) rq3) (issue rq3 w2) = (res, w3)"
        by (cases "on_retry rt (net (fetches w2) rq3) (issue rq3 w2)")
      then show ?thesis using seg1 seg2 Fetching \<open>s1 = Fetching rq2\<close>
        by (simp add: three start settle_alone_waiting resume_def proceed_def settle_alone_settled
              apiRequest_def do_fetch_def)
    qed
  qed
qed

lemma resume_original_401:
  assumes "has_window w" and "localStorage w ''refresh_token'' = Some t" and "t \<noteq> []"
    and "call_stage c = AwaitOriginal" and "status resp = 401"
  shows "resume rt (Responded resp) c w =
           (c\<lparr>call_stage := AwaitRefresh, call_waiting := Some (refresh_request w t)\<rparr>,
            issue (refresh_request w t) w)"
  using assms by (simp add: resume_def proceed_def on_original_401_refresh [where t = t])

lemma purge_twice: "purge (redirect_to_login (purge w)) = redirect_to_login (purge w)"
  by (simp add: purge_def removeItem_def redirect_to_login_def)

lemma navigations_failed_refresh:
  assumes "\<not> prefix ''/login'' (pathname w)" and "\<not> prefix ''/auth'' (pathname w)"
  shows "navigations (redirect_to_login (purge (redirect_to_login (purge w))))
           = navigations w @ [''/login'', ''/login'']"
  using assms by (simp add: purge_def removeItem_def redirect_to_login_def)

lemma on_refresh_not_ok:
  assumes "\<not> ok resp"
  shows "\<exists>m. on_refresh rt u options (Responded resp) w =
           (Done (Inl (ApiError m 401 None)), redirect_to_login (purge (redirect_to_login (purge w))))"
  using assms
  by (cases "detail_or rt (error_body resp) (JStr (statusText resp))")
     (simp_all add: on_refresh_def refresh_try_def refresh_failed_def Let_def)

lemma resume_refresh_not_ok:
  assumes "call_stage c = AwaitRefresh" and "\<not> ok resp"
  shows "\<exists>m. resume rt (Responded resp) c w =
           (c\<lparr>call_stage := Settled (Inl (ApiError m 401 None)), call_waiting := None\<rparr>,
            redirect_to_login (purge (redirect_to_login (purge w))))"
proof -
  from on_refresh_not_ok [OF assms(2), of rt "call_url c" "call_options c" w]
  obtain m where "on_refresh rt (call_url c) (call_options c) (Responded resp) w =
           (Done (Inl (ApiError m 401 None)), redirect_to_login (purge (redirect_to_login (purge w))))" ..
  then show ?thesis using assms(1) by (auto simp: resume_def proceed_def)
qed

lemma two_calls_both_refresh:
  assumes "has_window w" and "localStorage w ''refresh_token'' = Some t" and "t \<noteq> []"
    and "call_stage ca = AwaitOriginal" and "call_stage cb = AwaitOriginal"
    and "status ra = 401" and "status rb = 401"
    and "\<not> ok fa" and "\<not> ok fb"
    and "\<not> prefix ''/login'' (pathname w)" and "\<not> prefix ''/auth'' (pathname w)"
  shows "refreshes_in_flight
           (fst (run_schedule rt [(0, Responded ra), (1, Responded rb)] ([ca, cb], w))) = 2
       \<and> fetches (snd (run_schedule rt [(0, Responded ra), (1, Responded rb)] ([ca, cb], w)))
           = fetches w @ [refresh_request w t, refresh_request w t]
       \<and> list_all failed_401
           (map call_stage
              (fst (run_schedule rt
                      [(0, Responded ra), (1, Responded rb), (0, Responded fa), (1, Responded fb)]
                      ([ca, cb], w))))
       \<and> navigations
           (snd (run_schedule rt
                   [(0, Responded ra), (1, Responded rb), (0, Responded fa), (1, Responded fb)]
                   ([ca, cb], w)))
           = navigations w @ [''/login'', ''/login'', ''/login'', ''/login'']
       \<and> localStorage
           (snd (run_schedule rt
                   [(0, Responded ra), (1, Responded rb), (0, Responded fa), (1, Responded fb)]
                   ([ca, cb], w))) ''access_token'' = None
       \<and> localStorage
           (snd (run_schedule rt
                   [(0, Responded ra), (1, Responded rb), (0, Responded fa), (1, Responded fb)]
                   ([ca, cb], w))) ''refresh_token'' = None"
proof -
  let ?rq = "refresh_request w t"
  let ?ca = "ca\<lparr>call_stage := AwaitRefresh, call_waiting := Some ?rq\<rparr>"
  let ?cb = "cb\<lparr>call_stage := AwaitRefresh, call_waiting := Some ?rq\<rparr>"
  let ?w1 = "issue ?rq w"
  let ?w2 = "issue ?rq ?w1"
  have a: "resume rt (Responded ra) ca w = (?ca, ?w1)"
    using assms by (intro resume_original_401) simp_all
  have b: "resume rt (Responded rb) cb ?w1 = (?cb, ?w2)"
    using resume_original_401 [of ?w1 t cb rb rt] assms
    by (simp add: has_window_issue localStorage_issue refresh_request_issue)
  have two: "run_schedule rt [(0, Responded ra), (1, Responded rb)] ([ca, cb], w) = ([?ca, ?cb], ?w2)"
    by (simp add: a b)
  let ?w3 = "redirect_to_login (purge (redirect_to_login (purge ?w2)))"
  let ?w4 = "redirect_to_login (purge (redirect_to_login (purge ?w3)))"
  from resume_refresh_not_ok [of ?ca fa rt ?w2] assms(8)
  obtain ma where fa: "resume rt (Responded fa) ?ca ?w2 =
      (?ca\<lparr>call_stage := Settled (Inl (ApiError ma 401 None)), call_waiting := None\<rparr>, ?w3)"
    by auto
  from resume_refresh_not_ok [of ?cb fb rt ?w3] assms(9)
  obtain mb where fb: "resume rt (Responded fb) ?cb ?w3 =
      (?cb\<lparr>call_stage := Settled (Inl (ApiError mb 401 None)), call_waiting := None\<rparr>, ?w4)"
    by auto
  have four: "run_schedule rt
                [(0, Responded ra), (1, Responded rb), (0, Responded fa), (1, Responded fb)]
                ([ca, cb], w)
              = ([?ca\<lparr>call_stage := Settled (Inl (ApiError ma 401 None)), call_waiting := None\<rparr>,
                  ?cb\<lparr>call_stage := Settled (Inl (ApiError mb 401 None)), call_waiting := None\<rparr>],
                 ?w4)"
    by (simp add: a b fa fb)
  have p2: "pathname ?w2 = pathname w" by (simp add: issue_def)
  have p3: "pathname ?w3 = pathname w"
    by (simp add: issue_def purge_def removeItem_def redirect_to_login_def)
  have n3: "navigations ?w3 = navigations w @ [''/login'', ''/login'']"
    using navigations_failed_refresh [of ?w2] assms(10,11) p2 by (simp add: issue_def)
  have n4: "navigations ?w4 = navigations ?w3 @ [''/login'', ''/login'']"
    using navigations_failed_refresh [of ?w3] assms(10,11) p3 by simp
  have s4: "localStorage ?w4 ''access_token'' = None" "localStorage ?w4 ''refresh_token'' = None"
    by (simp_all add: localStorage_redirect purge_def removeItem_def)
  show ?thesis
    unfolding two four
    by (simp add: refreshes_in_flight_def failed_401_def n3 n4 fetches_issue s4)
qed

lemma two_calls_eval:
  "two_calls =
     ([\<lparr> call_url = ''http://localhost:8080/api/cards/'', call_options = no_options,
          call_stage = AwaitOriginal,
          call_waiting = Some (build_request sample_runtime ''http://localhost:8080/api/cards/''
                                 no_options JUndefined signed_in) \<rparr>,
       \<lparr> call_url = ''http://localhost:8080/api/players/'', call_options = no_options,
          call_stage = AwaitOriginal,
          call_waiting = Some (build_request sample_runtime ''http://localhost:8080/api/players/''
                                 no_options JUndefined signed_in) \<rparr>],
      issue (build_request sample_runtime ''http://localhost:8080/api/players/'' no_options JUndefined signed_in)
        (issue (build_request sample_runtime ''http://localhost:8080/api/cards/'' no_options JUndefined signed_in)
           signed_in))"
  by (simp add: two_calls_def start_two_def start_call_def Let_def API_BASE_URL_def
        signed_in_def browser_def issue_def build_request_def getItem_def js_or_def)

lemma two_calls_world:
  "has_window (snd two_calls)" "localStorage (snd two_calls) ''refresh_token'' = Some ''R1''"
  "\<not> prefix ''/login'' (pathname (snd two_calls))" "\<not> prefix ''/auth'' (pathname (snd two_calls))"
  "navigations (snd two_calls) = []"
  "map url (fetches (snd two_calls)) = [''http://localhost:8080/api/cards/'', ''http://localhost:8080/api/players/'']"
  "refresh_request (snd two_calls) ''R1'' = refresh_request signed_in ''R1''"
  by (simp_all add: two_calls_eval issue_def signed_in_def browser_def build_request_def Let_def
        refresh_request_def API_BASE_URL_def)

text \<open>
  Two calls in flight both meet a 401: two refresh calls are in flight, and when both
  are refused the login URL is assigned four times.
\<close>

theorem two_refreshes_in_flight_counterexample:
  "refreshes_in_flight (fst (run_schedule sample_runtime [(0, token_expired), (1, token_expired)] two_calls)) = 2
   \<and> navigations (snd (run_schedule sample_runtime
         [(0, token_expired), (1, token_expired), (0, refresh_refused), (1, refresh_refused)] two_calls))
       = [''/login'', ''/login'', ''/login'', ''/login'']"
proof -
  obtain ca cb where cs: "fst two_calls = [ca, cb]"
    and st: "call_stage ca = AwaitOriginal" "call_stage cb = AwaitOriginal"
    by (simp add: two_calls_eval)
  let ?expired = "\<lparr>status = 401, statusText = ''Unauthorized'',
                    json = Inr (JObj [(''detail'', JStr ''Token has expired'')])\<rparr>"
  let ?refused = "\<lparr>status = 401, statusText = ''Unauthorized'',
                    json = Inr (JObj [(''detail'', JStr ''Invalid refresh token'')])\<rparr>"
  have tc: "two_calls = ([ca, cb], snd two_calls)" using cs by (metis prod.collapse)
  have "\<not> ok ?refused" by (simp add: ok_def)
  with two_calls_both_refresh
         [of "snd two_calls" "''R1''" ca cb ?expired ?expired ?refused ?refused sample_runtime]
       two_calls_world st
  show ?thesis
    by (simp add: tc [symmetric] token_expired_def refresh_refused_def reply_def)
qed

lemma start_two_calls:
  "\<exists>ca cb. start_two rt e1 e2 w =
       ([ca, cb],
        issue (build_request rt (API_BASE_URL w @ e2) no_options JUndefined w)
          (issue (build_request rt (API_BASE_URL w @ e1) no_options JUndefined w) w))
     \<and> call_stage ca = AwaitOriginal \<and> call_stage cb = AwaitOriginal"
  by (simp add: start_two_def start_call_def Let_def API_BASE_URL_issue build_request_def
        has_window_issue getItem_issue)

text \<open>
  C8, as the code has it.  Nothing coalesces refreshes: when two calls are in flight
  from a browsing context that holds a refresh token and both are answered with a 401,
  each sends its own refresh call, so two refresh calls are in flight together.  When
  both refresh calls are then answered with a failure status, each call ends with an
  \<^verbatim>\<open>ApiError\<close> of status 401, each purges the tokens, and (off the login and auth
  paths) each assigns the login URL, twice per call.  \<^verbatim>\<open>apiRequest\<close> holds no session
  state, so none of this is a session transition.
\<close>

theorem overlapping_calls_refresh_separately:
  assumes "has_window w" and "localStorage w ''refresh_token'' = Some t" and "t \<noteq> []"
    and "status ra = 401" and "status rb = 401"
    and "\<not> ok fa" and "\<not> ok fb"
    and "\<not> prefix ''/login'' (pathname w)" and "\<not> prefix ''/auth'' (pathname w)"
    and "answered = run_schedule rt [(0, Responded ra), (1, Responded rb)] (start_two rt e1 e2 w)"
    and "failed = run_schedule rt
                    [(0, Responded ra), (1, Responded rb), (0, Responded fa), (1, Responded fb)]
                    (start_two rt e1 e2 w)"
  shows "refreshes_in_flight (fst answered) = 2
       \<and> fetches (snd answered)
           = fetches w @ [build_request rt (API_BASE_URL w @ e1) no_options JUndefined w,
                          build_request rt (API_BASE_URL w @ e2) no_options JUndefined w,
                          refresh_request w t, refresh_request w t]
       \<and> list_all failed_401 (map call_stage (fst failed))
       \<and> navigations (snd failed) = navigations w @ [''/login'', ''/login'', ''/login'', ''/login'']
       \<and> localStorage (snd failed) ''access_token'' = None
       \<and> localStorage (snd failed) ''refresh_token'' = None"
proof -
  let ?q1 = "build_request rt (API_BASE_URL w @ e1) no_options JUndefined w"
  let ?q2 = "build_request rt (API_BASE_URL w @ e2) no_options JUndefined w"
  let ?w = "issue ?q2 (issue ?q1 w)"
  from start_two_calls [of rt e1 e2 w] obtain ca cb
    where start: "start_two rt e1 e2 w = ([ca, cb], ?w)"
      and st: "call_stage ca = AwaitOriginal" "call_stage cb = AwaitOriginal"
    by blast
  have w: "has_window ?w" "localStorage ?w ''refresh_token'' = Some t"
    "\<not> prefix ''/login'' (pathname ?w)" "\<not> prefix ''/auth'' (pathname ?w)"
    using assms(1,2,8,9) by (simp_all add: issue_def)
  have same: "refresh_request ?w t = refresh_request w t" "navigations ?w = navigations w"
    "fetches ?w = fetches w @ [?q1, ?q2]"
    by (simp_all add: refresh_request_issue fetches_issue) (simp_all add: issue_def)
  from two_calls_both_refresh [OF w(1,2) assms(3) st assms(4,5,6,7) w(3,4), of rt]
  show ?thesis
    unfolding assms(10,11) start same by simp
qed
theorem overlapping_calls_refresh_separately_witness:
  "refreshes_in_flight
     (fst (run_schedule sample_runtime [(0, token_expired), (1, token_expired)] two_calls)) = 2
   \<and> map url (fetches (snd (run_schedule sample_runtime [(0, token_expired), (1, token_expired)] two_calls)))
       = [''http://localhost:8080/api/cards/'', ''http://localhost:8080/api/players/'',
          ''http://localhost:8080/api/auth/refresh'', ''http://localhost:8080/api/auth/refresh'']
   \<and> list_all failed_401
         (map call_stage
            (fst (run_schedule sample_runtime
                    [(0, token_expired), (1, token_expired), (0, refresh_refused), (1, refresh_refused)]
                    two_calls)))
   \<and> localStorage
         (snd (run_schedule sample_runtime
                 [(0, token_expired), (1, token_expired), (0, refresh_refused), (1, refresh_refused)]
                 two_calls)) ''access_token'' = None
   \<and> localStorage
         (snd (run_schedule sample_runtime
                 [(0, token_expired), (1, token_expired), (0, refresh_refused), (1, refresh_refused)]
                 two_calls)) ''refresh_token'' = None"
proof -
  let ?expired = "\<lparr>status = 401, statusText = ''Unauthorized'',
                    json = Inr (JObj [(''detail'', JStr ''Token has expired'')])\<rparr>"
  let ?refused = "\<lparr>status = 401, statusText = ''Unauthorized'',
                    json = Inr (JObj [(''detail'', JStr ''Invalid refresh token'')])\<rparr>"
  have w: "has_window signed_in" "localStorage signed_in ''refresh_token'' = Some ''R1''"
    "''R1'' \<noteq> []" "\<not> prefix ''/login'' (pathname signed_in)"
    "\<not> prefix ''/auth'' (pathname signed_in)" "fetches signed_in = []"
    by (simp_all add: signed_in_def browser_def)
  have r: "status ?expired = 401" "\<not> ok ?refused" by (simp_all add: ok_def)
  have urls: "url (build_request sample_runtime (API_BASE_URL signed_in @ ''/api/cards/'') no_options JUndefined signed_in)
                = ''http://localhost:8080/api/cards/''"
    "url (build_request sample_runtime (API_BASE_URL signed_in @ ''/api/players/'') no_options JUndefined signed_in)
                = ''http://localhost:8080/api/players/''"
    "url (refresh_request signed_in ''R1'') = ''http://localhost:8080/api/auth/refresh''"
    by (simp_all add: build_request_def refresh_request_def API_BASE_URL_def Let_def
          signed_in_def browser_def)
  from overlapping_calls_refresh_separately
         [OF w(1,2,3) r(1) r(1) r(2) r(2) w(4,5) refl refl,
          of sample_runtime "''/api/cards/''" "''/api/players/''"]
  show ?thesis
    by (simp add: two_calls_def token_expired_def refresh_refused_def reply_def w(6) urls)
qed

end
